theory Spec2Isabelle
  imports Main "HOL-Library.Sublist"
begin

section \<open>The LangGraph content pipeline (agents/langgraph\_workflow.py)\<close>

text \<open>
  The pipeline of \<^verbatim>\<open>agents/langgraph_workflow.py\<close> is embedded as pure functions over an
  explicit environment. Everything the Python code obtains from outside (the HTTP fetch
  and the parsed page, the chat model, the run of a generated program, the progress
  callback) is a field of that environment or an argument; every exception, every
  \<^verbatim>\<open>try/except Exception\<close> and every call that may not come back is a branch of the model.
\<close>

subsection \<open>Exceptions, outcomes and the effect trace\<close>

text \<open>
  Python separates the exceptions that \<^verbatim>\<open>except Exception\<close> catches from those that derive
  from \<^verbatim>\<open>BaseException\<close> only (\<^verbatim>\<open>SystemExit\<close>, \<^verbatim>\<open>KeyboardInterrupt\<close>, \<^verbatim>\<open>GeneratorExit\<close>, and the
  script-control exceptions of UI frameworks). Both carry the text \<^verbatim>\<open>str(e)\<close>.
\<close>

datatype py_exc = PyException string | PyBaseException string

text \<open>A call returns a value, raises, or never comes back.\<close>

datatype 'a outcome = Returns 'a | Raises py_exc | Hangs

fun map_outcome :: "('a \<Rightarrow> 'b) \<Rightarrow> 'a outcome \<Rightarrow> 'b outcome" where
  "map_outcome f (Returns a) = Returns (f a)"
| "map_outcome f (Raises e) = Raises e"
| "map_outcome f Hangs = Hangs"

subsection \<open>Strings\<close>

text \<open>
  Python strings are modelled as their UTF-8 bytes. The literals of the source that are
  not ASCII (progress messages and error prefixes, written in Chinese) are given byte by
  byte through \<open>utf8\<close>.
\<close>

definition utf8 :: "nat list \<Rightarrow> string" where
  "utf8 bs = map char_of bs"

text \<open>
  \<^verbatim>\<open>str.strip()\<close> removes leading and trailing whitespace, where whitespace is every code
  point with \<^verbatim>\<open>isspace()\<close>: U+0009..U+000D, U+001C..U+0020, U+0085, U+00A0, U+1680,
  U+2000..U+200A, U+2028, U+2029, U+202F, U+205F, U+3000; the list holds their encodings.
\<close>

definition py_whitespace :: "string list" where
  "py_whitespace =
    [[CHR 0x09], [CHR 0x0A], [CHR 0x0B], [CHR 0x0C], [CHR 0x0D], [CHR 0x1C], [CHR 0x1D],
     [CHR 0x1E], [CHR 0x1F], [CHR 0x20], [CHR 0xC2, CHR 0x85], [CHR 0xC2, CHR 0xA0],
     [CHR 0xE1, CHR 0x9A, CHR 0x80], [CHR 0xE2, CHR 0x80, CHR 0x80],
     [CHR 0xE2, CHR 0x80, CHR 0x81], [CHR 0xE2, CHR 0x80, CHR 0x82],
     [CHR 0xE2, CHR 0x80, CHR 0x83], [CHR 0xE2, CHR 0x80, CHR 0x84],
     [CHR 0xE2, CHR 0x80, CHR 0x85], [CHR 0xE2, CHR 0x80, CHR 0x86],
     [CHR 0xE2, CHR 0x80, CHR 0x87], [CHR 0xE2, CHR 0x80, CHR 0x88],
     [CHR 0xE2, CHR 0x80, CHR 0x89], [CHR 0xE2, CHR 0x80, CHR 0x8A],
     [CHR 0xE2, CHR 0x80, CHR 0xA8], [CHR 0xE2, CHR 0x80, CHR 0xA9],
     [CHR 0xE2, CHR 0x80, CHR 0xAF], [CHR 0xE2, CHR 0x81, CHR 0x9F],
     [CHR 0xE3, CHR 0x80, CHR 0x80]]"

text \<open>
  \<open>drop_leading ws n s\<close> removes from the front of \<open>s\<close> every word of \<open>ws\<close> that starts
  it, at most \<open>n\<close> times; \<open>n = length s\<close> removes them all, since each removal shortens
  \<open>s\<close> (an empty word removes nothing).
\<close>

fun drop_leading :: "string list \<Rightarrow> nat \<Rightarrow> string \<Rightarrow> string" where
  "drop_leading ws 0 s = s"
| "drop_leading ws (Suc n) s =
     (case find (\<lambda>w. w \<noteq> [] \<and> prefix w s) ws of
        None \<Rightarrow> s
      | Some w \<Rightarrow> drop_leading ws n (drop (length w) s))"

definition py_lstrip :: "string \<Rightarrow> string" where
  "py_lstrip s = drop_leading py_whitespace (length s) s"

definition py_rstrip :: "string \<Rightarrow> string" where
  "py_rstrip s = rev (drop_leading (map rev py_whitespace) (length s) (rev s))"

definition py_strip :: "string \<Rightarrow> string" where
  "py_strip s = py_rstrip (py_lstrip s)"

text \<open>\<^verbatim>\<open>s.find(sub)\<close>: the lowest index at which \<open>sub\<close> occurs, \<open>None\<close> for Python's -1.\<close>

fun find_at :: "string \<Rightarrow> string \<Rightarrow> nat option" where
  "find_at sub [] = (if sub = [] then Some 0 else None)"
| "find_at sub (c # cs) =
     (if prefix sub (c # cs) then Some 0 else map_option Suc (find_at sub cs))"

text \<open>\<^verbatim>\<open>s.find(sub, start)\<close> for \<open>start \<ge> 0\<close>.\<close>

definition py_find :: "string \<Rightarrow> string \<Rightarrow> nat \<Rightarrow> nat option" where
  "py_find s sub start =
     (if length s < start then None
      else map_option (\<lambda>i. i + start) (find_at sub (drop start s)))"

subsection \<open>Data model\<close>

text \<open>
  The values a generated program may return as its payload. Only two things are ever
  asked of a payload: its truth value (\<^verbatim>\<open>item['data']\<close> in a condition) and whether
  \<^verbatim>\<open>json.dumps\<close> accepts it. \<open>PyOpaque b n\<close> is any object of a class named \<open>n\<close> that
  \<^verbatim>\<open>json.dumps\<close> rejects (a set, a \<^verbatim>\<open>Tag\<close>, a \<^verbatim>\<open>datetime\<close>), with truth value \<open>b\<close>.
\<close>

datatype pyval =
    PyNone
  | PyBool bool
  | PyInt int
  | PyStr string
  | PyList "pyval list"
  | PyDict "(string \<times> pyval) list"
  | PyOpaque bool string

fun truthy :: "pyval \<Rightarrow> bool" where
  "truthy PyNone = False"
| "truthy (PyBool b) = b"
| "truthy (PyInt i) = (i \<noteq> 0)"
| "truthy (PyStr s) = (s \<noteq> [])"
| "truthy (PyList xs) = (xs \<noteq> [])"
| "truthy (PyDict kvs) = (kvs \<noteq> [])"
| "truthy (PyOpaque b n) = b"

text \<open>The class names of the objects \<^verbatim>\<open>json.dumps\<close> would reject, in encoding order.\<close>

fun opaque_types :: "pyval \<Rightarrow> string list" where
  "opaque_types (PyList xs) = concat (map opaque_types xs)"
| "opaque_types (PyDict kvs) = concat (map (\<lambda>kv. opaque_types (snd kv)) kvs)"
| "opaque_types (PyOpaque b n) = [n]"
| "opaque_types v = []"

text \<open>
  What the probe reads off a fetched and parsed page (the \<^verbatim>\<open>soup\<close>): the text of the
  \<^verbatim>\<open><title>\<close> tag if there is one, whether \<^verbatim>\<open>soup.select(selector)\<close> is non-empty, and the
  values that go into \<^verbatim>\<open>meta_info\<close>.
\<close>

record page =
  page_title :: "string option"
  page_select :: "string \<Rightarrow> bool"
  page_json_ld :: bool
  page_meta_description :: bool
  page_lang :: "string option"
  page_total_elements :: nat
  page_structured_data :: bool

datatype meta_value = MetaStr string | MetaBool bool | MetaInt nat | MetaTag "string option"

text \<open>The dataclass \<^verbatim>\<open>WebsiteStructure\<close>; \<^verbatim>\<open>meta_info\<close> is a dict, kept in insertion order.\<close>

record website_structure =
  ws_url :: string
  ws_title :: string
  main_content_selectors :: "string list"
  text_selectors :: "string list"
  image_selectors :: "string list"
  link_selectors :: "string list"
  meta_info :: "(string \<times> meta_value) list"
  suggested_approach :: string

text \<open>
  The per-URL dicts of the three fan-out stages. A key that a dict does not have is
  \<open>None\<close> in an \<open>_error\<close> field; the keys \<^verbatim>\<open>structure\<close> and \<^verbatim>\<open>code\<close> hold Python's
  \<^verbatim>\<open>None\<close> as \<open>None\<close>, and \<^verbatim>\<open>data\<close> holds it as \<open>PyNone\<close>.
\<close>

record website_analysis =
  wa_url :: string
  wa_structure :: "website_structure option"
  analysis_success :: bool
  wa_error :: "string option"

record scraping_code =
  sc_url :: string
  code :: "string option"
  generation_success :: bool
  sc_error :: "string option"
  structure_info :: "website_structure option"

record scraped =
  sd_url :: string
  data :: pyval
  execution_success :: bool
  sd_error :: "string option"

text \<open>
  A request to the chat model. The prompts are fixed templates filled with the fields
  below (the analysis text of a structure; the topic and the serialised successful data;
  the topic and the summary; the topic, the script and the summary), and the model is
  opaque, so a request is represented by what its prompt is rendered from.
\<close>

datatype llm_request =
    CodeRequest website_structure
  | SummaryRequest string "(string \<times> pyval) list"
  | ScriptRequest string string
  | SocialRequest string string string

text \<open>The externally visible effects of a run, in the order they happen.\<close>

datatype event =
    Progress string
  | HttpGet string
  | LlmInvoke llm_request
  | Exec string string

fun is_progress :: "event \<Rightarrow> bool" where
  "is_progress (Progress m) = True"
| "is_progress e = False"

text \<open>A computation: the effects it had, and how it ended.\<close>

type_synonym 'a io = "event list \<times> 'a outcome"

definition return_io :: "'a \<Rightarrow> 'a io" where
  "return_io a = ([], Returns a)"

definition raise_io :: "py_exc \<Rightarrow> 'a io" where
  "raise_io e = ([], Raises e)"

text \<open>Sequencing: the second computation runs only if the first returned.\<close>

definition bind_io :: "'a io \<Rightarrow> ('a \<Rightarrow> 'b io) \<Rightarrow> 'b io" where
  "bind_io m f =
     (case m of
        (t, Returns a) \<Rightarrow> (case f a of (t', r) \<Rightarrow> (t @ t', r))
      | (t, Raises e) \<Rightarrow> (t, Raises e)
      | (t, Hangs) \<Rightarrow> (t, Hangs))"

text \<open>
  \<^verbatim>\<open>try: m  except Exception as e: h(str(e))\<close>. Only an instance of \<^verbatim>\<open>Exception\<close> is
  caught; any other \<^verbatim>\<open>BaseException\<close> passes through, and nothing interrupts a call that
  does not come back.
\<close>

definition try_except :: "'a io \<Rightarrow> (string \<Rightarrow> 'a io) \<Rightarrow> 'a io" where
  "try_except m h =
     (case m of
        (t, Raises (PyException msg)) \<Rightarrow> (case h msg of (t', r) \<Rightarrow> (t @ t', r))
      | _ \<Rightarrow> m)"

text \<open>
  \<^verbatim>\<open>out = []; for x in xs: ... out.append(r)\<close>: every loop of the source appends exactly
  one dict per item, in each of its branches; \<open>body x\<close> computes that dict.
\<close>

fun for_each :: "('a \<Rightarrow> 'b io) \<Rightarrow> 'a list \<Rightarrow> 'b list \<Rightarrow> 'b list io" where
  "for_each body [] out = return_io out"
| "for_each body (x # xs) out = bind_io (body x) (\<lambda>r. for_each body xs (out @ [r]))"

subsection \<open>The environment\<close>

text \<open>
  \<^item> \<open>http_get u\<close>: \<^verbatim>\<open>requests.get(u, headers, timeout=10)\<close>, \<^verbatim>\<open>raise_for_status()\<close>, the
    parse by \<^verbatim>\<open>BeautifulSoup\<close> and the queries on the soup; \<open>Inl\<close> is \<^verbatim>\<open>str(e)\<close> of the
    exception raised (connection error, timeout, HTTP status, parser error), all of them
    instances of \<^verbatim>\<open>Exception\<close>.
  \<^item> \<open>urlparse_netloc u\<close>: \<^verbatim>\<open>urlparse(u).netloc\<close>, which raises \<^verbatim>\<open>ValueError\<close> on some inputs.
  \<^item> \<open>get_llm_error\<close>: \<open>Some msg\<close> if constructing the chat model in \<^verbatim>\<open>get_llm()\<close> raises.
  \<^item> \<open>llm_invoke r\<close>: \<^verbatim>\<open>llm.invoke(messages).content\<close>, or \<open>Inl\<close> the text of the exception.
  \<^item> \<open>exec_program c u\<close>: \<^verbatim>\<open>exec(c, exec_globals)\<close> followed, if the program defined
    \<^verbatim>\<open>main\<close>, by \<^verbatim>\<open>main(u)\<close>. The program is arbitrary generated text: it may raise
    anything (\<^verbatim>\<open>sys.exit()\<close> raises \<^verbatim>\<open>SystemExit\<close>) and it may loop for ever.
\<close>

datatype exec_result = NoMain | MainReturned pyval

record env =
  http_get :: "string \<Rightarrow> string + page"
  urlparse_netloc :: "string \<Rightarrow> string + string"
  get_llm_error :: "string option"
  llm_invoke :: "llm_request \<Rightarrow> string + string"
  exec_program :: "string \<Rightarrow> string \<Rightarrow> exec_result outcome"

definition sum_io :: "string + 'a \<Rightarrow> 'a io" where
  "sum_io r = (case r of Inl msg \<Rightarrow> raise_io (PyException msg) | Inr a \<Rightarrow> return_io a)"

definition fetch_page :: "env \<Rightarrow> string \<Rightarrow> page io" where
  "fetch_page e u = bind_io ([HttpGet u], Returns ()) (\<lambda>_. sum_io (http_get e u))"

definition get_llm :: "env \<Rightarrow> unit io" where
  "get_llm e =
     (case get_llm_error e of None \<Rightarrow> return_io () | Some msg \<Rightarrow> raise_io (PyException msg))"

definition invoke :: "env \<Rightarrow> llm_request \<Rightarrow> string io" where
  "invoke e r = bind_io ([LlmInvoke r], Returns ()) (\<lambda>_. sum_io (llm_invoke e r))"

definition run_program :: "env \<Rightarrow> string \<Rightarrow> string \<Rightarrow> exec_result io" where
  "run_program e c u = ([Exec c u], exec_program e c u)"

text \<open>
  The progress callback is arbitrary code of the caller: given a message it returns,
  raises, or does not come back. \<^verbatim>\<open>if cb: cb(msg)\<close>:
\<close>

type_synonym callback = "string \<Rightarrow> unit outcome"

definition notify :: "callback option \<Rightarrow> string \<Rightarrow> unit io" where
  "notify cb msg = (case cb of None \<Rightarrow> return_io () | Some f \<Rightarrow> ([Progress msg], f msg))"

text \<open>The TypedDict \<^verbatim>\<open>WorkflowState\<close>.\<close>

record workflow_state =
  topic :: string
  trend_urls :: "string list"
  website_analyses :: "website_analysis list"
  scraping_codes :: "scraping_code list"
  scraped_data :: "scraped list"
  summary :: string
  video_script :: string
  social_media :: string
  progress_callback :: "callback option"
  error_messages :: "string list"

text \<open>The dict returned to the caller.\<close>

record result_bundle =
  b_video_script :: string
  b_social_media :: string
  b_summary :: string
  scraped_data_count :: nat
  processed_urls :: "string list"

subsection \<open>Literals of the source\<close>

text \<open>The progress messages of the six nodes and of the run (an emoji and a Chinese phrase).\<close>

definition msg_analyze :: string where
  "msg_analyze = utf8 [0xF0, 0x9F, 0x94, 0x8D] @ '' '' @
     utf8 [0xE6, 0xAD, 0xA3, 0xE5, 0x9C, 0xA8, 0xE5, 0x88, 0x86, 0xE6, 0x9E, 0x90, 0xE8, 0xB6,
           0xA8, 0xE5, 0x8B, 0xA2, 0xE7, 0xB6, 0xB2, 0xE7, 0xAB, 0x99, 0xE7, 0xB5, 0x90, 0xE6,
           0xA7, 0x8B] @ ''...''"

definition msg_generate :: string where
  "msg_generate = utf8 [0xF0, 0x9F, 0xA4, 0x96] @ '' Code Agent '' @
     utf8 [0xE6, 0xAD, 0xA3, 0xE5, 0x9C, 0xA8, 0xE7, 0x94, 0x9F, 0xE6, 0x88, 0x90, 0xE7, 0x88,
           0xAC, 0xE8, 0x9F, 0xB2, 0xE7, 0xA8, 0x8B, 0xE5, 0xBC, 0x8F, 0xE7, 0xA2, 0xBC] @ ''...''"

definition msg_execute :: string where
  "msg_execute = utf8 [0xE2, 0x9A, 0x99, 0xEF, 0xB8, 0x8F] @ '' Code Executor '' @
     utf8 [0xE6, 0xAD, 0xA3, 0xE5, 0x9C, 0xA8, 0xE5, 0x9F, 0xB7, 0xE8, 0xA1, 0x8C, 0xE7, 0x88,
           0xAC, 0xE8, 0x9F, 0xB2, 0xE7, 0xA8, 0x8B, 0xE5, 0xBC, 0x8F, 0xE7, 0xA2, 0xBC] @ ''...''"

definition msg_summary :: string where
  "msg_summary = utf8 [0xF0, 0x9F, 0x93, 0x8B] @ '' Summary Agent '' @
     utf8 [0xE6, 0xAD, 0xA3, 0xE5, 0x9C, 0xA8, 0xE6, 0x95, 0xB4, 0xE5, 0x90, 0x88, 0xE7, 0x88,
           0xAC, 0xE8, 0x9F, 0xB2, 0xE7, 0xB5, 0x90, 0xE6, 0x9E, 0x9C] @ ''...''"

definition msg_script :: string where
  "msg_script = utf8 [0xF0, 0x9F, 0x8E, 0xAC] @ '' Script Writer '' @
     utf8 [0xE6, 0xAD, 0xA3, 0xE5, 0x9C, 0xA8, 0xE5, 0x89, 0xB5, 0xE4, 0xBD, 0x9C, 0xE5, 0xBD,
           0xB1, 0xE7, 0x89, 0x87, 0xE8, 0x85, 0xB3, 0xE6, 0x9C, 0xAC] @ ''...''"

definition msg_social :: string where
  "msg_social = utf8 [0xF0, 0x9F, 0x93, 0xB1] @ '' Social Media Writer '' @
     utf8 [0xE6, 0xAD, 0xA3, 0xE5, 0x9C, 0xA8, 0xE5, 0x89, 0xB5, 0xE4, 0xBD, 0x9C, 0xE7, 0xA4,
           0xBE, 0xE7, 0xBE, 0xA4, 0xE5, 0xAA, 0x92, 0xE9, 0xAB, 0x94, 0xE5, 0x85, 0xA7, 0xE5,
           0xAE, 0xB9] @ ''...''"

definition msg_start :: string where
  "msg_start = utf8 [0xF0, 0x9F, 0x9A, 0x80] @ '' '' @
     utf8 [0xE5, 0x95, 0x9F, 0xE5, 0x8B, 0x95] @ '' LangGraph '' @
     utf8 [0xE5, 0xB7, 0xA5, 0xE4, 0xBD, 0x9C, 0xE6, 0xB5, 0x81, 0xE7, 0xA8, 0x8B] @ ''...''"

definition msg_done :: string where
  "msg_done = utf8 [0xE2, 0x9C, 0x85] @ '' LangGraph '' @
     utf8 [0xE5, 0xB7, 0xA5, 0xE4, 0xBD, 0x9C, 0xE6, 0xB5, 0x81, 0xE7, 0xA8, 0x8B, 0xE5, 0x9F,
           0xB7, 0xE8, 0xA1, 0x8C, 0xE5, 0xAE, 0x8C, 0xE6, 0x88, 0x90, 0xEF, 0xBC, 0x81]"

text \<open>
  The canned summary \<^verbatim>\<open>f"<prefix>'{topic}'<suffix>"\<close>: "about the topic '...': the
  scraping obtained no valid data; check that the sites are reachable or adjust the
  scraping strategy".
\<close>

definition canned_prefix :: string where
  "canned_prefix =
     utf8 [0xE9, 0x97, 0x9C, 0xE6, 0x96, 0xBC, 0xE4, 0xB8, 0xBB, 0xE9, 0xA1, 0x8C] @ '' '' @
     [CHR 0x27]"

definition canned_suffix :: string where
  "canned_suffix = [CHR 0x27] @ '' '' @
     utf8 [0xE7, 0x9A, 0x84, 0xE7, 0x88, 0xAC, 0xE8, 0x9F, 0xB2, 0xE9, 0x81, 0x8E, 0xE7, 0xA8,
           0x8B, 0xE4, 0xB8, 0xAD, 0xE6, 0xB2, 0x92, 0xE6, 0x9C, 0x89, 0xE7, 0x8D, 0xB2, 0xE5,
           0xBE, 0x97, 0xE6, 0x9C, 0x89, 0xE6, 0x95, 0x88, 0xE6, 0x95, 0xB8, 0xE6, 0x93, 0x9A,
           0xEF, 0xBC, 0x8C, 0xE8, 0xAB, 0x8B, 0xE6, 0xAA, 0xA2, 0xE6, 0x9F, 0xA5, 0xE7, 0xB6,
           0xB2, 0xE7, 0xAB, 0x99, 0xE5, 0x8F, 0xAF, 0xE8, 0xA8, 0xAA, 0xE5, 0x95, 0x8F, 0xE6,
           0x80, 0xA7, 0xE6, 0x88, 0x96, 0xE8, 0xAA, 0xBF, 0xE6, 0x95, 0xB4, 0xE7, 0x88, 0xAC,
           0xE8, 0x9F, 0xB2, 0xE7, 0xAD, 0x96, 0xE7, 0x95, 0xA5, 0xE3, 0x80, 0x82]"

definition canned_summary :: "string \<Rightarrow> string" where
  "canned_summary tp = canned_prefix @ tp @ canned_suffix"

text \<open>
  The prefixes of the error strings (each ends with a full-width colon): "an error
  occurred while generating the summary / writing the video script / writing the social
  media content", and "the workflow failed".
\<close>

definition summary_error_prefix :: string where
  "summary_error_prefix =
     utf8 [0xE6, 0x91, 0x98, 0xE8, 0xA6, 0x81, 0xE7, 0x94, 0x9F, 0xE6, 0x88, 0x90, 0xE9, 0x81,
           0x8E, 0xE7, 0xA8, 0x8B, 0xE4, 0xB8, 0xAD, 0xE5, 0x87, 0xBA, 0xE7, 0x8F, 0xBE, 0xE9,
           0x8C, 0xAF, 0xE8, 0xAA, 0xA4, 0xEF, 0xBC, 0x9A]"

definition script_error_prefix :: string where
  "script_error_prefix =
     utf8 [0xE5, 0xBD, 0xB1, 0xE7, 0x89, 0x87, 0xE8, 0x85, 0xB3, 0xE6, 0x9C, 0xAC, 0xE5, 0x89,
           0xB5, 0xE4, 0xBD, 0x9C, 0xE9, 0x81, 0x8E, 0xE7, 0xA8, 0x8B, 0xE4, 0xB8, 0xAD, 0xE5,
           0x87, 0xBA, 0xE7, 0x8F, 0xBE, 0xE9, 0x8C, 0xAF, 0xE8, 0xAA, 0xA4, 0xEF, 0xBC, 0x9A]"

definition social_error_prefix :: string where
  "social_error_prefix =
     utf8 [0xE7, 0xA4, 0xBE, 0xE7, 0xBE, 0xA4, 0xE5, 0xAA, 0x92, 0xE9, 0xAB, 0x94, 0xE5, 0x85,
           0xA7, 0xE5, 0xAE, 0xB9, 0xE5, 0x89, 0xB5, 0xE4, 0xBD, 0x9C, 0xE9, 0x81, 0x8E, 0xE7,
           0xA8, 0x8B, 0xE4, 0xB8, 0xAD, 0xE5, 0x87, 0xBA, 0xE7, 0x8F, 0xBE, 0xE9, 0x8C, 0xAF,
           0xE8, 0xAA, 0xA4, 0xEF, 0xBC, 0x9A]"

definition workflow_error_prefix :: string where
  "workflow_error_prefix =
     utf8 [0xE5, 0xB7, 0xA5, 0xE4, 0xBD, 0x9C, 0xE6, 0xB5, 0x81, 0xE7, 0xA8, 0x8B, 0xE5, 0x9F,
           0xB7, 0xE8, 0xA1, 0x8C, 0xE5, 0xA4, 0xB1, 0xE6, 0x95, 0x97, 0xEF, 0xBC, 0x9A]"

subsection \<open>The structure probe\<close>

definition main_candidates :: "string list" where
  "main_candidates =
     [''main'', ''article'', ''.content'', ''.main-content'', ''#content'', ''.post'', ''.entry'']"

definition text_candidates :: "string list" where
  "text_candidates = [''p'', ''h1'', ''h2'', ''h3'', ''.text'', ''.description'', ''.summary'']"

definition image_candidates :: "string list" where
  "image_candidates = [''img'', ''.image'', ''.photo'', ''figure img'']"

definition link_candidates :: "string list" where
  "link_candidates = [''a[href]'', ''.link'', ''.more-link'']"

text \<open>
  The body of the \<^verbatim>\<open>try\<close> of \<^verbatim>\<open>analyze_website_structure\<close> once the page is there: the
  four loops over the candidate selectors, \<^verbatim>\<open>meta_info\<close>, the choice of the approach, and
  the slices \<^verbatim>\<open>[:3]\<close>, \<^verbatim>\<open>[:5]\<close>, \<^verbatim>\<open>[:3]\<close>, \<^verbatim>\<open>[:3]\<close>.
\<close>

definition inspect_page :: "string \<Rightarrow> string \<Rightarrow> page \<Rightarrow> website_structure" where
  "inspect_page u domain p =
     (let title_text = (case page_title p of Some t \<Rightarrow> py_strip t | None \<Rightarrow> ''No title found'');
          main_sel = filter (page_select p) main_candidates;
          text_sel = filter (page_select p) text_candidates;
          image_sel = filter (page_select p) image_candidates;
          link_sel = filter (page_select p) link_candidates;
          meta = [(''domain'', MetaStr domain),
                  (''has_json_ld'', MetaBool (page_json_ld p)),
                  (''has_meta_description'', MetaBool (page_meta_description p)),
                  (''page_lang'', MetaTag (page_lang p)),
                  (''total_elements'', MetaInt (page_total_elements p)),
                  (''has_structured_data'', MetaBool (page_structured_data p))];
          approach =
            (if page_json_ld p then ''json-ld''
             else if main_sel \<noteq> [] then ''content-selector''
             else if text_sel \<noteq> [] then ''text-extraction''
             else ''general-scraping'')
      in \<lparr>ws_url = u, ws_title = title_text,
          main_content_selectors = take 3 main_sel,
          text_selectors = take 5 text_sel,
          image_selectors = take 3 image_sel,
          link_selectors = take 3 link_sel,
          meta_info = meta, suggested_approach = approach\<rparr>)"

text \<open>The structure built in the \<^verbatim>\<open>except Exception as e\<close> branch; \<open>msg\<close> is \<^verbatim>\<open>str(e)\<close>.\<close>

definition degraded :: "string \<Rightarrow> string \<Rightarrow> website_structure" where
  "degraded u msg =
     \<lparr>ws_url = u, ws_title = ''Analysis failed'',
      main_content_selectors = [],
      text_selectors = [''p'', ''h1'', ''h2'', ''h3''],
      image_selectors = [''img''],
      link_selectors = [''a''],
      meta_info = [(''error'', MetaStr msg)],
      suggested_approach = ''general-scraping''\<rparr>"

definition analyze_website_structure :: "env \<Rightarrow> string \<Rightarrow> website_structure io" where
  "analyze_website_structure e u =
     try_except
       (bind_io (fetch_page e u) (\<lambda>p.
        bind_io (sum_io (urlparse_netloc e u)) (\<lambda>domain.
        return_io (inspect_page u domain p))))
       (\<lambda>msg. return_io (degraded u msg))"

subsection \<open>Node 1: analyze\_urls\_node\<close>

definition analyze_url :: "env \<Rightarrow> string \<Rightarrow> website_analysis io" where
  "analyze_url e u =
     try_except
       (bind_io (analyze_website_structure e u) (\<lambda>analysis.
        return_io \<lparr>wa_url = u, wa_structure = Some analysis,
                   analysis_success = True, wa_error = None\<rparr>))
       (\<lambda>msg. return_io \<lparr>wa_url = u, wa_structure = None,
                         analysis_success = False, wa_error = Some msg\<rparr>)"

definition analyze_urls_node :: "env \<Rightarrow> workflow_state \<Rightarrow> workflow_state io" where
  "analyze_urls_node e st =
     bind_io (notify (progress_callback st) msg_analyze) (\<lambda>_.
     bind_io (for_each (analyze_url e) (take 3 (trend_urls st)) []) (\<lambda>out.
     return_io (st\<lparr>website_analyses := out\<rparr>)))"

subsection \<open>Node 2: generate\_scraping\_code\_node\<close>

text \<open>
  The extraction of the program from the response: if the response contains
  \<^verbatim>\<open>```python\<close> and a closing \<^verbatim>\<open>```\<close> after it, the stripped text between them, otherwise
  the whole response.
\<close>

definition extract_code :: "string \<Rightarrow> string" where
  "extract_code generated =
     (case find_at ''```python'' generated of
        None \<Rightarrow> generated
      | Some i \<Rightarrow>
          (let code_start = i + 9 in
           case py_find generated ''```'' code_start of
             None \<Rightarrow> generated
           | Some code_end \<Rightarrow>
               py_strip (take (code_end - code_start) (drop code_start generated))))"

text \<open>\<^verbatim>\<open>structure.url\<close> when \<^verbatim>\<open>structure\<close> is \<^verbatim>\<open>None\<close> raises this \<^verbatim>\<open>AttributeError\<close>.\<close>

definition none_has_no_url :: string where
  "none_has_no_url =
     [CHR 0x27] @ ''NoneType'' @ [CHR 0x27] @ '' object has no attribute '' @
     [CHR 0x27] @ ''url'' @ [CHR 0x27]"

definition generate_code :: "env \<Rightarrow> website_analysis \<Rightarrow> scraping_code io" where
  "generate_code e wa =
     (if \<not> analysis_success wa then
        return_io \<lparr>sc_url = wa_url wa, code = None, generation_success = False,
                   sc_error = Some (case wa_error wa of Some msg \<Rightarrow> msg | None \<Rightarrow> ''Unknown error''),
                   structure_info = None\<rparr>
      else
        try_except
          (case wa_structure wa of
             None \<Rightarrow> raise_io (PyException none_has_no_url)
           | Some s \<Rightarrow>
               bind_io (invoke e (CodeRequest s)) (\<lambda>generated.
               return_io \<lparr>sc_url = ws_url s, code = Some (extract_code generated),
                          generation_success = True, sc_error = None,
                          structure_info = Some s\<rparr>))
          (\<lambda>msg. return_io \<lparr>sc_url = wa_url wa, code = None, generation_success = False,
                            sc_error = Some msg, structure_info = None\<rparr>))"

definition generate_scraping_code_node :: "env \<Rightarrow> workflow_state \<Rightarrow> workflow_state io" where
  "generate_scraping_code_node e st =
     bind_io (notify (progress_callback st) msg_generate) (\<lambda>_.
     bind_io (get_llm e) (\<lambda>_.
     bind_io (for_each (generate_code e) (website_analyses st) []) (\<lambda>out.
     return_io (st\<lparr>scraping_codes := out\<rparr>))))"

subsection \<open>Node 3: execute\_scraping\_code\_node\<close>

text \<open>\<^verbatim>\<open>not code_info['code']\<close>: the code is \<^verbatim>\<open>None\<close> or the empty string.\<close>

definition no_code :: "string option \<Rightarrow> bool" where
  "no_code c = (case c of None \<Rightarrow> True | Some s \<Rightarrow> s = [])"

definition execute_code :: "env \<Rightarrow> scraping_code \<Rightarrow> scraped io" where
  "execute_code e ci =
     (if \<not> generation_success ci \<or> no_code (code ci) then
        return_io \<lparr>sd_url = sc_url ci, data = PyNone, execution_success = False,
                   sd_error = Some (case sc_error ci of Some msg \<Rightarrow> msg
                                    | None \<Rightarrow> ''No code to execute'')\<rparr>
      else
        try_except
          (bind_io (run_program e (the (code ci)) (sc_url ci)) (\<lambda>r.
           case r of
             MainReturned v \<Rightarrow>
               return_io \<lparr>sd_url = sc_url ci, data = v, execution_success = True,
                          sd_error = None\<rparr>
           | NoMain \<Rightarrow>
               return_io \<lparr>sd_url = sc_url ci, data = PyNone, execution_success = False,
                          sd_error = Some ''No main function found in generated code''\<rparr>))
          (\<lambda>msg. return_io \<lparr>sd_url = sc_url ci, data = PyNone, execution_success = False,
                            sd_error = Some msg\<rparr>))"

definition execute_scraping_code_node :: "env \<Rightarrow> workflow_state \<Rightarrow> workflow_state io" where
  "execute_scraping_code_node e st =
     bind_io (notify (progress_callback st) msg_execute) (\<lambda>_.
     bind_io (for_each (execute_code e) (scraping_codes st) []) (\<lambda>out.
     return_io (st\<lparr>scraped_data := out\<rparr>)))"

subsection \<open>Node 4: summary\_agent\_node\<close>

text \<open>The items with \<^verbatim>\<open>item['execution_success'] and item['data']\<close>, as (url, content).\<close>

definition successful_data :: "scraped list \<Rightarrow> (string \<times> pyval) list" where
  "successful_data items =
     map (\<lambda>item. (sd_url item, data item))
       (filter (\<lambda>item. execution_success item \<and> truthy (data item)) items)"

text \<open>
  \<^verbatim>\<open>json.dumps(successful_data, ensure_ascii=False, indent=2)\<close> raises \<^verbatim>\<open>TypeError\<close> at the
  first object it cannot encode. It is evaluated while the prompt is built, before the
  \<^verbatim>\<open>try\<close> of the node. The text it returns goes into the prompt only.
\<close>

definition json_dumps :: "(string \<times> pyval) list \<Rightarrow> unit io" where
  "json_dumps d =
     (case concat (map (\<lambda>item. opaque_types (snd item)) d) of
        [] \<Rightarrow> return_io ()
      | n # _ \<Rightarrow> raise_io (PyException (''Object of type '' @ n @ '' is not JSON serializable'')))"

definition summary_agent_node :: "env \<Rightarrow> workflow_state \<Rightarrow> workflow_state io" where
  "summary_agent_node e st =
     bind_io (notify (progress_callback st) msg_summary) (\<lambda>_.
     bind_io (get_llm e) (\<lambda>_.
     if successful_data (scraped_data st) = [] then
       return_io (st\<lparr>summary := canned_summary (topic st)\<rparr>)
     else
       bind_io (json_dumps (successful_data (scraped_data st))) (\<lambda>_.
       try_except
         (bind_io (invoke e (SummaryRequest (topic st) (successful_data (scraped_data st))))
            (\<lambda>content. return_io (st\<lparr>summary := content\<rparr>)))
         (\<lambda>msg. return_io (st\<lparr>summary := summary_error_prefix @ msg\<rparr>)))))"

subsection \<open>Nodes 5 and 6: script\_writer\_node, social\_media\_writer\_node\<close>

definition script_writer_node :: "env \<Rightarrow> workflow_state \<Rightarrow> workflow_state io" where
  "script_writer_node e st =
     bind_io (notify (progress_callback st) msg_script) (\<lambda>_.
     bind_io (get_llm e) (\<lambda>_.
     try_except
       (bind_io (invoke e (ScriptRequest (topic st) (summary st)))
          (\<lambda>content. return_io (st\<lparr>video_script := content\<rparr>)))
       (\<lambda>msg. return_io (st\<lparr>video_script := script_error_prefix @ msg\<rparr>))))"

definition social_media_writer_node :: "env \<Rightarrow> workflow_state \<Rightarrow> workflow_state io" where
  "social_media_writer_node e st =
     bind_io (notify (progress_callback st) msg_social) (\<lambda>_.
     bind_io (get_llm e) (\<lambda>_.
     try_except
       (bind_io (invoke e (SocialRequest (topic st) (video_script st) (summary st)))
          (\<lambda>content. return_io (st\<lparr>social_media := content\<rparr>)))
       (\<lambda>msg. return_io (st\<lparr>social_media := social_error_prefix @ msg\<rparr>))))"

subsection \<open>The graph and the run\<close>

text \<open>
  \<^verbatim>\<open>create_langgraph_workflow\<close> wires the six nodes in one line, entry \<^verbatim>\<open>analyze_urls\<close>,
  finish \<^verbatim>\<open>write_social\<close>; \<^verbatim>\<open>workflow.invoke\<close> runs them in that order on the state.
\<close>

definition workflow_invoke :: "env \<Rightarrow> workflow_state \<Rightarrow> workflow_state io" where
  "workflow_invoke e st =
     bind_io (analyze_urls_node e st) (\<lambda>s1.
     bind_io (generate_scraping_code_node e s1) (\<lambda>s2.
     bind_io (execute_scraping_code_node e s2) (\<lambda>s3.
     bind_io (summary_agent_node e s3) (\<lambda>s4.
     bind_io (script_writer_node e s4) (\<lambda>s5.
     social_media_writer_node e s5)))))"

definition initial_state :: "string \<Rightarrow> string list \<Rightarrow> callback option \<Rightarrow> workflow_state" where
  "initial_state tp urls cb =
     \<lparr>topic = tp, trend_urls = urls, website_analyses = [], scraping_codes = [],
      scraped_data = [], summary = [], video_script = [], social_media = [],
      progress_callback = cb, error_messages = []\<rparr>"

definition final_bundle :: "workflow_state \<Rightarrow> result_bundle" where
  "final_bundle st =
     \<lparr>b_video_script = video_script st,
      b_social_media = social_media st,
      b_summary = summary st,
      scraped_data_count = length (filter execution_success (scraped_data st)),
      processed_urls = map wa_url (website_analyses st)\<rparr>"

definition failure_bundle :: "string \<Rightarrow> result_bundle" where
  "failure_bundle msg =
     \<lparr>b_video_script = workflow_error_prefix @ msg,
      b_social_media = workflow_error_prefix @ msg,
      b_summary = [],
      scraped_data_count = 0,
      processed_urls = []\<rparr>"

text \<open>The body of the outermost \<^verbatim>\<open>try\<close> of \<^verbatim>\<open>run_langgraph_workflow\<close>, and the function.\<close>

definition run_body ::
  "env \<Rightarrow> string \<Rightarrow> string list \<Rightarrow> callback option \<Rightarrow> result_bundle io" where
  "run_body e tp urls cb =
     bind_io (notify cb msg_start) (\<lambda>_.
     bind_io (workflow_invoke e (initial_state tp urls cb)) (\<lambda>final_state.
     bind_io (notify cb msg_done) (\<lambda>_.
     return_io (final_bundle final_state))))"

definition run_langgraph_workflow ::
  "env \<Rightarrow> string \<Rightarrow> string list \<Rightarrow> callback option \<Rightarrow> result_bundle io" where
  "run_langgraph_workflow e tp urls cb =
     try_except (run_body e tp urls cb) (\<lambda>msg. return_io (failure_bundle msg))"

subsection \<open>Predicates used by the statements\<close>

text \<open>An outcome that \<^verbatim>\<open>except Exception\<close> can deal with: a value or an \<^verbatim>\<open>Exception\<close>.\<close>

fun benign :: "'a outcome \<Rightarrow> bool" where
  "benign (Returns a) = True"
| "benign (Raises (PyException msg)) = True"
| "benign (Raises (PyBaseException msg)) = False"
| "benign Hangs = False"

text \<open>A callback (if any) whose every invocation is benign; one that always returns.\<close>

definition benign_callback :: "callback option \<Rightarrow> bool" where
  "benign_callback cb = (case cb of None \<Rightarrow> True | Some f \<Rightarrow> \<forall>msg. benign (f msg))"

definition returning_callback :: "callback option \<Rightarrow> bool" where
  "returning_callback cb = (case cb of None \<Rightarrow> True | Some f \<Rightarrow> \<forall>msg. f msg = Returns ())"

text \<open>The backend calls and the page fetches in a trace.\<close>

definition llm_calls :: "event list \<Rightarrow> llm_request list" where
  "llm_calls t = concat (map (\<lambda>ev. case ev of LlmInvoke r \<Rightarrow> [r] | _ \<Rightarrow> []) t)"

definition fetched :: "event list \<Rightarrow> string list" where
  "fetched t = concat (map (\<lambda>ev. case ev of HttpGet u \<Rightarrow> [u] | _ \<Rightarrow> []) t)"

text \<open>
  A computation seen through a filter on its events and a function on its result; used to
  compare two runs that differ in a field of the state.
\<close>

definition observe :: "(event \<Rightarrow> bool) \<Rightarrow> ('a \<Rightarrow> 'b) \<Rightarrow> 'a io \<Rightarrow> 'b io" where
  "observe P g m = (filter P (fst m), map_outcome g (snd m))"

subsection \<open>A concrete environment\<close>

text \<open>
  A page with an article, several text selectors, an image and links; three sites, of
  which \<^verbatim>\<open>http://down.io\<close> refuses the connection, and a backend that times out on the
  program for \<^verbatim>\<open>http://slow.io\<close>.
\<close>

definition demo_page :: page where
  "demo_page =
     \<lparr>page_title = Some '' AI news '',
      page_select = (\<lambda>sel. sel \<in> set [''article'', ''.post'', ''p'', ''h1'', ''h2'', ''h3'',
                                        ''.text'', ''.summary'', ''img'', ''a[href]'']),
      page_json_ld = False,
      page_meta_description = True,
      page_lang = Some ''<html lang=en>'',
      page_total_elements = 120,
      page_structured_data = False\<rparr>"

definition demo_env :: env where
  "demo_env =
     \<lparr>http_get = (\<lambda>u. if u = ''http://down.io'' then Inl ''Connection refused'' else Inr demo_page),
      urlparse_netloc = (\<lambda>u. Inr (drop 7 u)),
      get_llm_error = None,
      llm_invoke = (\<lambda>r. case r of
          CodeRequest s \<Rightarrow>
            if ws_url s = ''http://slow.io'' then Inl ''Request timed out''
            else Inr ''```python def main(url): pass ```''
        | SummaryRequest tp d \<Rightarrow> Inr ''summary''
        | ScriptRequest tp sm \<Rightarrow> Inr ''script''
        | SocialRequest tp sc sm \<Rightarrow> Inr ''social''),
      exec_program = (\<lambda>c u.
          if u = ''http://down.io'' then Raises (PyException ''Connection refused'')
          else Returns (MainReturned (PyDict [(''title'', PyStr ''AI news'')])))\<rparr>"

text \<open>Seven seed URLs, a run without a callback, and the states it goes through.\<close>

definition demo_urls :: "string list" where
  "demo_urls =
     [''http://a.io'', ''http://down.io'', ''http://slow.io'', ''http://d.io'', ''http://e.io'',
      ''http://f.io'', ''http://g.io'']"

definition demo_state :: workflow_state where
  "demo_state = initial_state ''AI'' demo_urls None"

definition demo_analyses :: "website_analysis list" where
  "demo_analyses =
     [\<lparr>wa_url = ''http://a.io'',
       wa_structure = Some (inspect_page ''http://a.io'' ''a.io'' demo_page),
       analysis_success = True, wa_error = None\<rparr>,
      \<lparr>wa_url = ''http://down.io'',
       wa_structure = Some (degraded ''http://down.io'' ''Connection refused''),
       analysis_success = True, wa_error = None\<rparr>,
      \<lparr>wa_url = ''http://slow.io'',
       wa_structure = Some (inspect_page ''http://slow.io'' ''slow.io'' demo_page),
       analysis_success = True, wa_error = None\<rparr>]"

definition demo_codes :: "scraping_code list" where
  "demo_codes =
     [\<lparr>sc_url = ''http://a.io'', code = Some ''def main(url): pass'',
       generation_success = True, sc_error = None,
       structure_info = Some (inspect_page ''http://a.io'' ''a.io'' demo_page)\<rparr>,
      \<lparr>sc_url = ''http://down.io'', code = Some ''def main(url): pass'',
       generation_success = True, sc_error = None,
       structure_info = Some (degraded ''http://down.io'' ''Connection refused'')\<rparr>,
      \<lparr>sc_url = ''http://slow.io'', code = None,
       generation_success = False, sc_error = Some ''Request timed out'',
       structure_info = None\<rparr>]"

definition demo_scraped :: "scraped list" where
  "demo_scraped =
     [\<lparr>sd_url = ''http://a.io'', data = PyDict [(''title'', PyStr ''AI news'')],
       execution_success = True, sd_error = None\<rparr>,
      \<lparr>sd_url = ''http://down.io'', data = PyNone,
       execution_success = False, sd_error = Some ''Connection refused''\<rparr>,
      \<lparr>sd_url = ''http://slow.io'', data = PyNone,
       execution_success = False, sd_error = Some ''Request timed out''\<rparr>]"


definition demo_final :: workflow_state where
  "demo_final =
     demo_state\<lparr>website_analyses := demo_analyses, scraping_codes := demo_codes,
                scraped_data := demo_scraped, summary := ''summary'',
                video_script := ''script'', social_media := ''social''\<rparr>"

definition demo_bundle :: result_bundle where
  "demo_bundle =
     \<lparr>b_video_script = ''script'', b_social_media = ''social'', b_summary = ''summary'',
      scraped_data_count = 1,
      processed_urls = [''http://a.io'', ''http://down.io'', ''http://slow.io'']\<rparr>"

text \<open>
  A state handed to the synthesis stage in which the first record is flagged as a failed
  analysis (no run produces such a record), and a state handed to the summary stage in
  which no item succeeded.
\<close>

definition failed_analysis_state :: workflow_state where
  "failed_analysis_state =
     demo_state\<lparr>website_analyses :=
       [\<lparr>wa_url = ''http://down.io'', wa_structure = None,
         analysis_success = False, wa_error = Some ''Connection refused''\<rparr>,
        \<lparr>wa_url = ''http://a.io'',
         wa_structure = Some (inspect_page ''http://a.io'' ''a.io'' demo_page),
         analysis_success = True, wa_error = None\<rparr>]\<rparr>"

definition failed_analysis_codes :: "scraping_code list" where
  "failed_analysis_codes =
     [\<lparr>sc_url = ''http://down.io'', code = None, generation_success = False,
       sc_error = Some ''Connection refused'', structure_info = None\<rparr>,
      \<lparr>sc_url = ''http://a.io'', code = Some ''def main(url): pass'',
       generation_success = True, sc_error = None,
       structure_info = Some (inspect_page ''http://a.io'' ''a.io'' demo_page)\<rparr>]"


text \<open>The same environment with generated programs that never come back.\<close>

definition hanging_env :: env where
  "hanging_env = demo_env\<lparr>exec_program := (\<lambda>c u. Hangs)\<rparr>"


text \<open>
  Three callbacks: one that returns, one that raises an \<^verbatim>\<open>Exception\<close>, and one that raises
  a script-control exception deriving from \<^verbatim>\<open>BaseException\<close> only.
\<close>

definition quiet_callback :: callback where
  "quiet_callback = (\<lambda>msg. Returns ())"

definition failing_callback :: callback where
  "failing_callback = (\<lambda>msg. Raises (PyException ''widget is gone''))"

definition stopping_callback :: callback where
  "stopping_callback = (\<lambda>msg. Raises (PyBaseException ''StopException''))"

section \<open>Basic facts about computations\<close>

lemma bind_io_simps [simp]:
  "bind_io (t, Returns a) f = (case f a of (t', r) \<Rightarrow> (t @ t', r))"
  "bind_io (t, Raises x) f = (t, Raises x)"
  "bind_io (t, Hangs) f = (t, Hangs)"
  by (simp_all add: bind_io_def)

lemma case_prod_trace [simp]:
  "snd (case m of (t, r) \<Rightarrow> (g t, r)) = snd m"
  "fst (case m of (t, r) \<Rightarrow> (g t, r)) = g (fst m)"
  by (simp_all split: prod.splits)

lemma bind_return_io [simp]: "bind_io (return_io a) f = f a"
  by (simp add: return_io_def split: prod.splits)

lemma snd_bind_io:
  "snd (bind_io m f) =
     (case snd m of Returns a \<Rightarrow> snd (f a) | Raises x \<Rightarrow> Raises x | Hangs \<Rightarrow> Hangs)"
  by (simp add: bind_io_def split: outcome.splits prod.splits)

lemma fst_bind_io:
  "fst (bind_io m f) = (case snd m of Returns a \<Rightarrow> fst m @ fst (f a) | _ \<Rightarrow> fst m)"
  by (simp add: bind_io_def split: outcome.splits prod.splits)

lemma bind_io_Returns_iff:
  "snd (bind_io m f) = Returns b \<longleftrightarrow> (\<exists>a. snd m = Returns a \<and> snd (f a) = Returns b)"
  by (simp add: snd_bind_io split: outcome.splits)

lemma try_except_simps [simp]:
  "try_except (t, Returns a) h = (t, Returns a)"
  "try_except (t, Raises (PyException msg)) h = (case h msg of (t', r) \<Rightarrow> (t @ t', r))"
  "try_except (t, Raises (PyBaseException msg)) h = (t, Raises (PyBaseException msg))"
  "try_except (t, Hangs) h = (t, Hangs)"
  by (simp_all add: try_except_def)

lemma snd_return_io [simp]: "snd (return_io a) = Returns a" "fst (return_io a) = []"
  by (simp_all add: return_io_def)

lemma snd_raise_io [simp]: "snd (raise_io x) = Raises x" "fst (raise_io x) = []"
  by (simp_all add: raise_io_def)

lemma benign_bind_io:
  assumes "benign (snd m)" and "\<And>a. snd m = Returns a \<Longrightarrow> benign (snd (f a))"
  shows "benign (snd (bind_io m f))"
proof (cases "snd m")
  case (Raises x)
  with assms(1) show ?thesis by (cases x) (auto simp: snd_bind_io)
qed (use assms in \<open>auto simp: snd_bind_io\<close>)

lemma snd_try_except:
  "snd (try_except m h) =
     (case snd m of Raises (PyException msg) \<Rightarrow> snd (h msg) | r \<Rightarrow> r)"
  by (cases m) (simp add: try_except_def split: outcome.splits py_exc.splits prod.splits)

lemma fst_try_except:
  "fst (try_except m h) =
     (case snd m of Raises (PyException msg) \<Rightarrow> fst m @ fst (h msg) | r \<Rightarrow> fst m)"
  by (cases m) (simp add: try_except_def split: outcome.splits py_exc.splits prod.splits)

lemma try_except_Returns:
  assumes "benign (snd m)" and "\<And>msg. \<exists>a. snd (h msg) = Returns a"
  shows "\<exists>a. snd (try_except m h) = Returns a"
proof (cases "snd m")
  case (Raises x)
  with assms show ?thesis by (cases x) (auto simp: snd_try_except)
qed (use assms in \<open>auto simp: snd_try_except\<close>)

lemma for_each_Returns:
  "snd (for_each body xs out) = Returns rs \<Longrightarrow>
     \<exists>ys. rs = out @ ys \<and> list_all2 (\<lambda>x y. snd (body x) = Returns y) xs ys"
proof (induction xs arbitrary: out)
  case Nil
  then show ?case by simp
next
  case (Cons x xs)
  from Cons.prems obtain r where r: "snd (body x) = Returns r"
    and rest: "snd (for_each body xs (out @ [r])) = Returns rs"
    by (auto simp: bind_io_Returns_iff)
  from Cons.IH [OF rest] obtain ys where "rs = (out @ [r]) @ ys"
    and "list_all2 (\<lambda>x y. snd (body x) = Returns y) xs ys" by blast
  with r show ?case by (intro exI [of _ "r # ys"]) simp
qed


lemma for_each_benign:
  "(\<And>x. x \<in> set xs \<Longrightarrow> benign (snd (body x))) \<Longrightarrow> benign (snd (for_each body xs out))"
  by (induction xs arbitrary: out) (auto intro!: benign_bind_io)

lemma for_each_trace:
  "snd (for_each body xs out) = Returns rs \<Longrightarrow>
     fst (for_each body xs out) = concat (map (\<lambda>x. fst (body x)) xs)"
proof (induction xs arbitrary: out)
  case Nil
  then show ?case by simp
next
  case (Cons x xs)
  from Cons.prems obtain r where r: "snd (body x) = Returns r"
    and rest: "snd (for_each body xs (out @ [r])) = Returns rs"
    by (auto simp: bind_io_Returns_iff)
  with Cons.IH [OF rest] show ?case by (simp add: fst_bind_io)
qed


lemma fetch_page_eq:
  "fetch_page e u =
     ([HttpGet u], case http_get e u of Inl msg \<Rightarrow> Raises (PyException msg) | Inr p \<Rightarrow> Returns p)"
  by (simp add: fetch_page_def sum_io_def raise_io_def return_io_def split: sum.splits)

lemma invoke_eq:
  "invoke e r =
     ([LlmInvoke r], case llm_invoke e r of Inl msg \<Rightarrow> Raises (PyException msg) | Inr c \<Rightarrow> Returns c)"
  by (simp add: invoke_def sum_io_def raise_io_def return_io_def split: sum.splits)

lemma analyze_website_structure_eq:
  "analyze_website_structure e u =
     ([HttpGet u],
      Returns (case http_get e u of
                 Inl msg \<Rightarrow> degraded u msg
               | Inr p \<Rightarrow> (case urlparse_netloc e u of
                             Inl msg \<Rightarrow> degraded u msg
                           | Inr d \<Rightarrow> inspect_page u d p)))"
  by (simp add: analyze_website_structure_def fetch_page_eq sum_io_def raise_io_def return_io_def
      split: sum.splits)

lemma analyze_url_eq:
  "analyze_url e u =
     ([HttpGet u],
      Returns \<lparr>wa_url = u,
               wa_structure = Some (case http_get e u of
                 Inl msg \<Rightarrow> degraded u msg
               | Inr p \<Rightarrow> (case urlparse_netloc e u of
                             Inl msg \<Rightarrow> degraded u msg
                           | Inr d \<Rightarrow> inspect_page u d p)),
               analysis_success = True, wa_error = None\<rparr>)"
  by (simp add: analyze_url_def analyze_website_structure_eq return_io_def)

lemma list_all2_map_eq:
  "list_all2 (\<lambda>x y. f y = g x) xs ys \<Longrightarrow> map f ys = map g xs"
  by (induction rule: list_all2_induct) auto

lemma list_all2_compose:
  "list_all2 P xs ys \<Longrightarrow> list_all2 Q ys zs \<Longrightarrow> list_all2 (\<lambda>x z. \<exists>y. P x y \<and> Q y z) xs zs"
  by (induction arbitrary: zs rule: list_all2_induct) (auto simp: list_all2_Cons1)

lemma analyze_urls_node_Returns:
  assumes "snd (analyze_urls_node e st) = Returns s1"
  shows "\<exists>rs. s1 = st\<lparr>website_analyses := rs\<rparr> \<and>
     list_all2 (\<lambda>u r. snd (analyze_url e u) = Returns r) (take 3 (trend_urls st)) rs"
  using assms for_each_Returns [of "analyze_url e" "take 3 (trend_urls st)" "[]"]
  by (auto simp: analyze_urls_node_def bind_io_Returns_iff)

lemma generate_scraping_code_node_Returns:
  assumes "snd (generate_scraping_code_node e st) = Returns s2"
  shows "\<exists>cs. s2 = st\<lparr>scraping_codes := cs\<rparr> \<and>
     list_all2 (\<lambda>wa c. snd (generate_code e wa) = Returns c) (website_analyses st) cs"
  using assms for_each_Returns [of "generate_code e" "website_analyses st" "[]"]
  by (auto simp: generate_scraping_code_node_def bind_io_Returns_iff)

lemma execute_scraping_code_node_Returns:
  assumes "snd (execute_scraping_code_node e st) = Returns s3"
  shows "\<exists>ds. s3 = st\<lparr>scraped_data := ds\<rparr> \<and>
     list_all2 (\<lambda>c d. snd (execute_code e c) = Returns d) (scraping_codes st) ds"
  using assms for_each_Returns [of "execute_code e" "scraping_codes st" "[]"]
  by (auto simp: execute_scraping_code_node_def bind_io_Returns_iff)

lemma generate_code_eq:
  "generate_code e wa =
     (if \<not> analysis_success wa then
        ([], Returns \<lparr>sc_url = wa_url wa, code = None, generation_success = False,
                      sc_error = Some (case wa_error wa of Some msg \<Rightarrow> msg | None \<Rightarrow> ''Unknown error''),
                      structure_info = None\<rparr>)
      else case wa_structure wa of
        None \<Rightarrow>
          ([], Returns \<lparr>sc_url = wa_url wa, code = None, generation_success = False,
                        sc_error = Some none_has_no_url, structure_info = None\<rparr>)
      | Some s \<Rightarrow>
          ([LlmInvoke (CodeRequest s)],
           Returns (case llm_invoke e (CodeRequest s) of
                      Inl msg \<Rightarrow> \<lparr>sc_url = wa_url wa, code = None, generation_success = False,
                                   sc_error = Some msg, structure_info = None\<rparr>
                    | Inr generated \<Rightarrow>
                        \<lparr>sc_url = ws_url s, code = Some (extract_code generated),
                         generation_success = True, sc_error = None,
                         structure_info = Some s\<rparr>)))"
  by (simp add: generate_code_def invoke_eq return_io_def raise_io_def
      split: option.splits sum.splits)

lemma execute_code_url:
  "snd (execute_code e c) = Returns d \<Longrightarrow> sd_url d = sc_url c"
  by (cases "exec_program e (the (code c)) (sc_url c)")
     (auto simp: execute_code_def run_program_def return_io_def try_except_def bind_io_def
           split: if_splits exec_result.splits py_exc.splits)

lemma summary_agent_node_Returns:
  "snd (summary_agent_node e st) = Returns s \<Longrightarrow> \<exists>x. s = st\<lparr>summary := x\<rparr>"
  by (auto simp: summary_agent_node_def bind_io_Returns_iff invoke_eq return_io_def
           try_except_def
           split: if_splits sum.splits)

lemma script_writer_node_Returns:
  "snd (script_writer_node e st) = Returns s \<Longrightarrow> \<exists>x. s = st\<lparr>video_script := x\<rparr>"
  by (auto simp: script_writer_node_def bind_io_Returns_iff invoke_eq return_io_def
           try_except_def
           split: if_splits sum.splits)

lemma social_media_writer_node_Returns:
  "snd (social_media_writer_node e st) = Returns s \<Longrightarrow> \<exists>x. s = st\<lparr>social_media := x\<rparr>"
  by (auto simp: social_media_writer_node_def bind_io_Returns_iff invoke_eq return_io_def
           try_except_def
           split: if_splits sum.splits)

lemma fan_out_urls:
  assumes "snd (analyze_urls_node e st) = Returns s1"
    and "snd (generate_scraping_code_node e s1) = Returns s2"
    and "snd (execute_scraping_code_node e s2) = Returns s3"
  shows "map wa_url (website_analyses s3) = take 3 (trend_urls st) \<and>
         map sc_url (scraping_codes s3) = take 3 (trend_urls st) \<and>
         map sd_url (scraped_data s3) = take 3 (trend_urls st) \<and>
         trend_urls s3 = trend_urls st"
proof -
  from analyze_urls_node_Returns [OF assms(1)] obtain rs where
    s1: "s1 = st\<lparr>website_analyses := rs\<rparr>" and
    rs: "list_all2 (\<lambda>u r. snd (analyze_url e u) = Returns r) (take 3 (trend_urls st)) rs"
    by blast
  from generate_scraping_code_node_Returns [OF assms(2)] obtain cs where
    s2: "s2 = s1\<lparr>scraping_codes := cs\<rparr>" and
    cs: "list_all2 (\<lambda>wa c. snd (generate_code e wa) = Returns c) (website_analyses s1) cs"
    by blast
  from execute_scraping_code_node_Returns [OF assms(3)] obtain ds where
    s3: "s3 = s2\<lparr>scraped_data := ds\<rparr>" and
    ds: "list_all2 (\<lambda>c d. snd (execute_code e c) = Returns d) (scraping_codes s2) ds"
    by blast
  have inspect_url: "ws_url (inspect_page u d p) = u" for u d p
    by (simp add: inspect_page_def Let_def)
  have a: "list_all2 (\<lambda>u r. wa_url r = u \<and> (\<exists>s. wa_structure r = Some s \<and> ws_url s = u)) (take 3 (trend_urls st)) rs"
    using rs by (rule list_all2_mono)
      (auto simp: analyze_url_eq degraded_def inspect_url split: sum.splits)
  have b: "list_all2 (\<lambda>u c. sc_url c = u) (take 3 (trend_urls st)) cs"
    using list_all2_compose [OF a cs [unfolded s1, simplified]]
    by (rule list_all2_mono) (auto simp: generate_code_eq split: if_splits sum.splits)
  have c: "list_all2 (\<lambda>u d. sd_url d = u) (take 3 (trend_urls st)) ds"
    using list_all2_compose [OF b ds [unfolded s2, simplified]]
    by (rule list_all2_mono) (auto dest: execute_code_url)
  from a have "map wa_url rs = map (\<lambda>u. u) (take 3 (trend_urls st))"
    by (intro list_all2_map_eq) (auto elim: list_all2_mono)
  moreover from b have "map sc_url cs = map (\<lambda>u. u) (take 3 (trend_urls st))"
    by (rule list_all2_map_eq)
  moreover from c have "map sd_url ds = map (\<lambda>u. u) (take 3 (trend_urls st))"
    by (rule list_all2_map_eq)
  ultimately show ?thesis by (simp add: s1 s2 s3)
qed

section \<open>The run of the concrete environment, stage by stage\<close>

lemma ws_url_inspect_page [simp]: "ws_url (inspect_page u d p) = u"
  by (simp add: inspect_page_def Let_def)

lemma ws_url_degraded [simp]: "ws_url (degraded u msg) = u"
  by (simp add: degraded_def)

lemma extract_code_demo:
  "extract_code ''```python def main(url): pass ```'' = ''def main(url): pass''"
  by (simp add: extract_code_def py_find_def py_strip_def py_lstrip_def py_rstrip_def
      py_whitespace_def)

lemma demo_analyze:
  "analyze_urls_node demo_env demo_state =
     ([HttpGet ''http://a.io'', HttpGet ''http://down.io'', HttpGet ''http://slow.io''],
      Returns (demo_state\<lparr>website_analyses := demo_analyses\<rparr>))"
  by (simp add: analyze_urls_node_def demo_state_def demo_urls_def initial_state_def notify_def
      analyze_url_eq return_io_def demo_analyses_def demo_env_def)

lemma demo_generate:
  "generate_scraping_code_node demo_env (demo_state\<lparr>website_analyses := demo_analyses\<rparr>) =
     ([LlmInvoke (CodeRequest (inspect_page ''http://a.io'' ''a.io'' demo_page)),
       LlmInvoke (CodeRequest (degraded ''http://down.io'' ''Connection refused'')),
       LlmInvoke (CodeRequest (inspect_page ''http://slow.io'' ''slow.io'' demo_page))],
      Returns (demo_state\<lparr>website_analyses := demo_analyses, scraping_codes := demo_codes\<rparr>))"
  by (simp add: generate_scraping_code_node_def demo_state_def initial_state_def notify_def
      get_llm_def generate_code_eq return_io_def demo_analyses_def demo_codes_def demo_env_def
      extract_code_demo)

lemma demo_execute:
  "execute_scraping_code_node demo_env
       (demo_state\<lparr>website_analyses := demo_analyses, scraping_codes := demo_codes\<rparr>) =
     ([Exec ''def main(url): pass'' ''http://a.io'', Exec ''def main(url): pass'' ''http://down.io''],
      Returns (demo_state\<lparr>website_analyses := demo_analyses, scraping_codes := demo_codes,
                          scraped_data := demo_scraped\<rparr>))"
  by (simp add: execute_scraping_code_node_def demo_state_def initial_state_def notify_def
      execute_code_def run_program_def no_code_def return_io_def demo_codes_def demo_scraped_def
      demo_env_def)

lemma demo_summary:
  "summary_agent_node demo_env
       (demo_state\<lparr>website_analyses := demo_analyses, scraping_codes := demo_codes,
                   scraped_data := demo_scraped\<rparr>) =
     ([LlmInvoke (SummaryRequest ''AI'' [(''http://a.io'', PyDict [(''title'', PyStr ''AI news'')])])],
      Returns (demo_state\<lparr>website_analyses := demo_analyses, scraping_codes := demo_codes,
                          scraped_data := demo_scraped, summary := ''summary''\<rparr>))"
  by (simp add: summary_agent_node_def demo_state_def initial_state_def notify_def get_llm_def
      successful_data_def json_dumps_def invoke_eq return_io_def demo_scraped_def demo_env_def)

lemma demo_script:
  "script_writer_node demo_env
       (demo_state\<lparr>website_analyses := demo_analyses, scraping_codes := demo_codes,
                   scraped_data := demo_scraped, summary := ''summary''\<rparr>) =
     ([LlmInvoke (ScriptRequest ''AI'' ''summary'')],
      Returns (demo_state\<lparr>website_analyses := demo_analyses, scraping_codes := demo_codes,
                          scraped_data := demo_scraped, summary := ''summary'',
                          video_script := ''script''\<rparr>))"
  by (simp add: script_writer_node_def demo_state_def initial_state_def notify_def get_llm_def
      invoke_eq return_io_def demo_env_def)

lemma demo_social:
  "social_media_writer_node demo_env
       (demo_state\<lparr>website_analyses := demo_analyses, scraping_codes := demo_codes,
                   scraped_data := demo_scraped, summary := ''summary'',
                   video_script := ''script''\<rparr>) =
     ([LlmInvoke (SocialRequest ''AI'' ''script'' ''summary'')],
      Returns (demo_state\<lparr>website_analyses := demo_analyses, scraping_codes := demo_codes,
                          scraped_data := demo_scraped, summary := ''summary'',
                          video_script := ''script'', social_media := ''social''\<rparr>))"
  by (simp add: social_media_writer_node_def demo_state_def initial_state_def notify_def
      get_llm_def invoke_eq return_io_def demo_env_def)

lemma demo_invoke:
  "snd (workflow_invoke demo_env demo_state) = Returns demo_final"
  by (simp add: workflow_invoke_def demo_analyze demo_generate demo_execute demo_summary
      demo_script demo_social demo_final_def)

lemma demo_run:
  "snd (run_langgraph_workflow demo_env ''AI'' demo_urls None) = Returns demo_bundle"
  using demo_invoke
  by (simp add: run_langgraph_workflow_def run_body_def notify_def demo_state_def [symmetric]
      snd_bind_io snd_try_except final_bundle_def demo_final_def demo_bundle_def
      demo_scraped_def demo_analyses_def)

section \<open>The structure probe\<close>



lemma take_eq_Nil_iff: "0 < n \<Longrightarrow> take n xs = [] \<longleftrightarrow> xs = []"
  by (cases xs) auto

text \<open>
  C7. For a page that was fetched and parsed, the probe picks the approach by priority:
  JSON-LD script blocks present give \<^verbatim>\<open>json-ld\<close>; otherwise a non-empty list of
  main-content selectors gives \<^verbatim>\<open>content-selector\<close>; otherwise a non-empty list of text
  selectors gives \<^verbatim>\<open>text-extraction\<close>; otherwise \<^verbatim>\<open>general-scraping\<close>. The lists kept are
  the first 3 main-content, 5 text, 3 image and 3 link candidates that matched, in the
  order of the candidate lists.
\<close>

theorem C7_strategy_priority:
  assumes "http_get e u = Inr p" and "urlparse_netloc e u = Inr d"
  shows "\<exists>s. snd (analyze_website_structure e u) = Returns s \<and>
     suggested_approach s =
       (if page_json_ld p then ''json-ld''
        else if main_content_selectors s \<noteq> [] then ''content-selector''
        else if text_selectors s \<noteq> [] then ''text-extraction''
        else ''general-scraping'') \<and>
     main_content_selectors s = take 3 (filter (page_select p) main_candidates) \<and>
     text_selectors s = take 5 (filter (page_select p) text_candidates) \<and>
     image_selectors s = take 3 (filter (page_select p) image_candidates) \<and>
     link_selectors s = take 3 (filter (page_select p) link_candidates) \<and>
     length (main_content_selectors s) \<le> 3 \<and> length (text_selectors s) \<le> 5 \<and>
     length (image_selectors s) \<le> 3 \<and> length (link_selectors s) \<le> 3"
proof -
  have "snd (analyze_website_structure e u) = Returns (inspect_page u d p)"
    using assms by (simp add: analyze_website_structure_eq)
  then show ?thesis
    by (simp add: inspect_page_def Let_def take_eq_Nil_iff)
qed

theorem C7_witness:
  "http_get demo_env ''http://a.io'' = Inr demo_page \<and>
   urlparse_netloc demo_env ''http://a.io'' = Inr ''a.io'' \<and>
   snd (analyze_website_structure demo_env ''http://a.io'') =
     Returns (inspect_page ''http://a.io'' ''a.io'' demo_page) \<and>
   suggested_approach (inspect_page ''http://a.io'' ''a.io'' demo_page) = ''content-selector'' \<and>
   main_content_selectors (inspect_page ''http://a.io'' ''a.io'' demo_page) = [''article'', ''.post''] \<and>
   text_selectors (inspect_page ''http://a.io'' ''a.io'' demo_page) =
     [''p'', ''h1'', ''h2'', ''h3'', ''.text'']"
proof -
  have h1: "http_get demo_env ''http://a.io'' = Inr demo_page"
    by (simp add: demo_env_def)
  have h2: "urlparse_netloc demo_env ''http://a.io'' = Inr ''a.io''"
    by (simp add: demo_env_def)
  have sel: "filter (page_select demo_page) main_candidates = [''article'', ''.post'']"
    "filter (page_select demo_page) text_candidates = [''p'', ''h1'', ''h2'', ''h3'', ''.text'', ''.summary'']"
    by (simp_all add: demo_page_def main_candidates_def text_candidates_def)
  from C7_strategy_priority [OF h1 h2] obtain s
    where s: "snd (analyze_website_structure demo_env ''http://a.io'') = Returns s"
      and a: "suggested_approach s =
       (if page_json_ld demo_page then ''json-ld''
        else if main_content_selectors s \<noteq> [] then ''content-selector''
        else if text_selectors s \<noteq> [] then ''text-extraction''
        else ''general-scraping'')"
      and m: "main_content_selectors s = take 3 (filter (page_select demo_page) main_candidates)"
      and t: "text_selectors s = take 5 (filter (page_select demo_page) text_candidates)"
    by blast
  have "s = inspect_page ''http://a.io'' ''a.io'' demo_page"
    using s h1 h2 by (simp add: analyze_website_structure_eq)
  with s a m t sel h1 h2 show ?thesis
    by (simp add: demo_page_def)
qed


section \<open>The fan-out stages\<close>

subsection \<open>Backend calls of the synthesis stage\<close>

lemma llm_calls_append [simp]: "llm_calls (a @ b) = llm_calls a @ llm_calls b"
  by (simp add: llm_calls_def)

lemma llm_calls_simps [simp]:
  "llm_calls [] = []"
  "llm_calls (LlmInvoke r # t) = r # llm_calls t"
  "llm_calls (Progress m # t) = llm_calls t"
  "llm_calls (HttpGet u # t) = llm_calls t"
  "llm_calls (Exec c u # t) = llm_calls t"
  by (simp_all add: llm_calls_def)

lemma llm_calls_notify [simp]: "llm_calls (fst (notify cb m)) = []"
  by (simp add: notify_def return_io_def split: option.splits)

lemma llm_calls_generate_code:
  "llm_calls (fst (generate_code e wa)) =
     (if analysis_success wa \<and> wa_structure wa \<noteq> None
      then [CodeRequest (the (wa_structure wa))] else [])"
  by (auto simp: generate_code_eq split: option.splits)

lemma concat_map_filter_singleton:
  "concat (map (\<lambda>x. if P x then [f x] else []) xs) = map f (filter P xs)"
  by (induction xs) auto

lemma llm_calls_concat: "llm_calls (concat ts) = concat (map llm_calls ts)"
  by (induction ts) auto

lemma generate_scraping_code_node_calls:
  assumes "snd (generate_scraping_code_node e st) = Returns s2"
  shows "llm_calls (fst (generate_scraping_code_node e st)) =
     map (\<lambda>wa. CodeRequest (the (wa_structure wa)))
       (filter (\<lambda>wa. analysis_success wa \<and> wa_structure wa \<noteq> None) (website_analyses st))"
proof -
  from assms obtain u out where n: "snd (notify (progress_callback st) msg_generate) = Returns u"
    and g: "snd (get_llm e) = Returns ()"
    and f: "snd (for_each (generate_code e) (website_analyses st) []) = Returns out"
    by (auto simp: generate_scraping_code_node_def bind_io_Returns_iff)
  have "fst (get_llm e) = []"
    by (simp add: get_llm_def return_io_def raise_io_def split: option.splits)
  with n g f have "llm_calls (fst (generate_scraping_code_node e st)) =
      llm_calls (fst (for_each (generate_code e) (website_analyses st) []))"
    by (simp add: generate_scraping_code_node_def fst_bind_io)
  also have "\<dots> = concat (map (\<lambda>wa. llm_calls (fst (generate_code e wa))) (website_analyses st))"
    by (simp add: for_each_trace [OF f] llm_calls_concat comp_def)
  finally show ?thesis
    by (simp add: llm_calls_generate_code concat_map_filter_singleton)
qed

lemma list_all2_setD1: "list_all2 P xs ys \<Longrightarrow> x \<in> set xs \<Longrightarrow> \<exists>y \<in> set ys. P x y"
  by (induction rule: list_all2_induct) auto

lemma list_all2_setD2: "list_all2 P xs ys \<Longrightarrow> y \<in> set ys \<Longrightarrow> \<exists>x \<in> set xs. P x y"
  by (induction rule: list_all2_induct) auto

text \<open>
  C10. The probe never raises, so the \<^verbatim>\<open>except\<close> branch of the analyze stage is never
  taken: every record of the analyze stage has \<^verbatim>\<open>analysis_success = True\<close> and a
  structure. Hence the synthesis stage, when it completes, calls the backend once for
  every admitted URL, in order, also for a URL whose probe degraded to the fallback
  structure.
\<close>

theorem C10_analysis_always_succeeds:
  "(\<forall>x. snd (analyze_website_structure e u) \<noteq> Raises x) \<and>
   (snd (analyze_urls_node e st) = Returns s1 \<longrightarrow>
      (\<forall>r \<in> set (website_analyses s1). analysis_success r \<and> wa_structure r \<noteq> None) \<and>
      (snd (generate_scraping_code_node e s1) = Returns s2 \<longrightarrow>
         llm_calls (fst (generate_scraping_code_node e s1)) =
           map (\<lambda>r. CodeRequest (the (wa_structure r))) (website_analyses s1) \<and>
         length (llm_calls (fst (generate_scraping_code_node e s1))) =
           length (take 3 (trend_urls st)) \<and>
         (\<forall>v msg. v \<in> set (take 3 (trend_urls st)) \<and> http_get e v = Inl msg \<longrightarrow>
            CodeRequest (degraded v msg)
              \<in> set (llm_calls (fst (generate_scraping_code_node e s1))))))"
proof (intro conjI impI)
  show "\<forall>x. snd (analyze_website_structure e u) \<noteq> Raises x"
    by (simp add: analyze_website_structure_eq)
next
  assume a: "snd (analyze_urls_node e st) = Returns s1"
  from analyze_urls_node_Returns [OF a] obtain rs where
    s1: "s1 = st\<lparr>website_analyses := rs\<rparr>" and
    rs: "list_all2 (\<lambda>v r. snd (analyze_url e v) = Returns r) (take 3 (trend_urls st)) rs"
    by blast
  have ok: "analysis_success r \<and> wa_structure r \<noteq> None" if "r \<in> set rs" for r
  proof -
    from list_all2_setD2 [OF rs that] obtain v where "snd (analyze_url e v) = Returns r"
      by blast
    then show ?thesis by (auto simp: analyze_url_eq)
  qed
  then show all: "\<forall>r \<in> set (website_analyses s1). analysis_success r \<and> wa_structure r \<noteq> None"
    by (simp add: s1)
  assume g: "snd (generate_scraping_code_node e s1) = Returns s2"
  from all have flt: "filter (\<lambda>wa. analysis_success wa \<and> wa_structure wa \<noteq> None) (website_analyses s1)
      = website_analyses s1"
    by (simp add: filter_id_conv)
  show calls: "llm_calls (fst (generate_scraping_code_node e s1)) =
           map (\<lambda>r. CodeRequest (the (wa_structure r))) (website_analyses s1)"
    unfolding generate_scraping_code_node_calls [OF g] flt by (rule refl)
  from list_all2_lengthD [OF rs] have len: "length rs = length (take 3 (trend_urls st))"
    by (rule sym)
  then show "length (llm_calls (fst (generate_scraping_code_node e s1))) =
           length (take 3 (trend_urls st))"
    unfolding calls by (simp add: s1)
  show "\<forall>v msg. v \<in> set (take 3 (trend_urls st)) \<and> http_get e v = Inl msg \<longrightarrow>
            CodeRequest (degraded v msg)
              \<in> set (llm_calls (fst (generate_scraping_code_node e s1)))"
  proof (intro allI impI)
    fix v msg
    assume v: "v \<in> set (take 3 (trend_urls st)) \<and> http_get e v = Inl msg"
    with list_all2_setD1 [OF rs, of v] obtain r
      where "r \<in> set rs" "snd (analyze_url e v) = Returns r"
      by blast
    with v have "r \<in> set rs" "wa_structure r = Some (degraded v msg)"
      by (auto simp: analyze_url_eq)
    then show "CodeRequest (degraded v msg)
              \<in> set (llm_calls (fst (generate_scraping_code_node e s1)))"
      unfolding calls by (force simp: s1)
  qed
qed

theorem C10_witness:
  "snd (analyze_urls_node demo_env demo_state) = Returns (demo_state\<lparr>website_analyses := demo_analyses\<rparr>) \<and>
   snd (generate_scraping_code_node demo_env (demo_state\<lparr>website_analyses := demo_analyses\<rparr>)) =
     Returns (demo_state\<lparr>website_analyses := demo_analyses, scraping_codes := demo_codes\<rparr>) \<and>
   ''http://down.io'' \<in> set (take 3 (trend_urls demo_state)) \<and>
   http_get demo_env ''http://down.io'' = Inl ''Connection refused'' \<and>
   map analysis_success demo_analyses = [True, True, True] \<and>
   length (llm_calls (fst (generate_scraping_code_node demo_env
      (demo_state\<lparr>website_analyses := demo_analyses\<rparr>)))) = 3 \<and>
   CodeRequest (degraded ''http://down.io'' ''Connection refused'')
     \<in> set (llm_calls (fst (generate_scraping_code_node demo_env
          (demo_state\<lparr>website_analyses := demo_analyses\<rparr>))))"
proof -
  have h1: "snd (analyze_urls_node demo_env demo_state) =
      Returns (demo_state\<lparr>website_analyses := demo_analyses\<rparr>)"
    by (simp add: demo_analyze)
  have h2: "snd (generate_scraping_code_node demo_env (demo_state\<lparr>website_analyses := demo_analyses\<rparr>)) =
     Returns (demo_state\<lparr>website_analyses := demo_analyses, scraping_codes := demo_codes\<rparr>)"
    by (simp add: demo_generate)
  have h3: "''http://down.io'' \<in> set (take 3 (trend_urls demo_state)) \<and>
     http_get demo_env ''http://down.io'' = Inl ''Connection refused''"
    by (simp add: demo_state_def initial_state_def demo_urls_def demo_env_def)
  have h4: "map analysis_success demo_analyses = [True, True, True]"
    by (simp add: demo_analyses_def)
  have l: "length (take 3 (trend_urls demo_state)) = 3"
    by (simp add: demo_state_def initial_state_def demo_urls_def)
  from C10_analysis_always_succeeds [of demo_env "''http://down.io''" demo_state
      "demo_state\<lparr>website_analyses := demo_analyses\<rparr>"
      "demo_state\<lparr>website_analyses := demo_analyses, scraping_codes := demo_codes\<rparr>"]
    h1 h2 h3 h4 l
  show ?thesis by auto
qed


text \<open>
  C3, as stated, fails. The probe of \<^verbatim>\<open>http://down.io\<close> fails (the connection is
  refused) and yields the degraded structure, which the analyze stage records with
  \<^verbatim>\<open>analysis_success = True\<close>. The synthesis stage therefore calls the backend for it
  and marks its program as generated: three backend calls for two pages that could be
  fetched.
\<close>

theorem C3_counterexample:
  "http_get demo_env (demo_urls ! 1) = Inl ''Connection refused'' \<and>
   snd (analyze_website_structure demo_env (demo_urls ! 1)) =
     Returns (degraded ''http://down.io'' ''Connection refused'') \<and>
   snd (analyze_urls_node demo_env demo_state) =
     Returns (demo_state\<lparr>website_analyses := demo_analyses\<rparr>) \<and>
   map_outcome (\<lambda>s. generation_success (scraping_codes s ! 1))
     (snd (generate_scraping_code_node demo_env (demo_state\<lparr>website_analyses := demo_analyses\<rparr>)))
     = Returns True \<and>
   llm_calls (fst (generate_code demo_env (demo_analyses ! 1))) =
     [CodeRequest (degraded ''http://down.io'' ''Connection refused'')] \<and>
   length (llm_calls (fst (generate_scraping_code_node demo_env
     (demo_state\<lparr>website_analyses := demo_analyses\<rparr>)))) = 3 \<and>
   length (filter (\<lambda>v. \<not> isl (http_get demo_env v)) (take 3 demo_urls)) = 2"
proof -
  have u: "demo_urls ! 1 = ''http://down.io''"
    by (simp add: demo_urls_def)
  have 1: "http_get demo_env (demo_urls ! 1) = Inl ''Connection refused''"
    unfolding u by (simp add: demo_env_def)
  have 2: "snd (analyze_website_structure demo_env (demo_urls ! 1)) =
     Returns (degraded ''http://down.io'' ''Connection refused'')"
    unfolding u by (simp add: analyze_website_structure_eq demo_env_def)
  have 3: "snd (analyze_urls_node demo_env demo_state) =
     Returns (demo_state\<lparr>website_analyses := demo_analyses\<rparr>)"
    by (simp add: demo_analyze)
  have 4: "map_outcome (\<lambda>s. generation_success (scraping_codes s ! 1))
     (snd (generate_scraping_code_node demo_env (demo_state\<lparr>website_analyses := demo_analyses\<rparr>)))
     = Returns True"
    unfolding demo_generate by (simp add: demo_codes_def)
  have 5: "llm_calls (fst (generate_code demo_env (demo_analyses ! 1))) =
     [CodeRequest (degraded ''http://down.io'' ''Connection refused'')]"
    by (simp add: demo_analyses_def generate_code_eq)
  have 6: "length (llm_calls (fst (generate_scraping_code_node demo_env
     (demo_state\<lparr>website_analyses := demo_analyses\<rparr>)))) = 3"
    unfolding demo_generate by simp
  have 7: "length (filter (\<lambda>v. \<not> isl (http_get demo_env v)) (take 3 demo_urls)) = 2"
    by (simp add: demo_urls_def demo_env_def)
  from 1 2 3 4 5 6 7 show ?thesis by blast
qed

lemma generate_code_flagged:
  "\<not> analysis_success wa \<Longrightarrow> snd (generate_code e wa) = Returns c \<Longrightarrow>
     \<not> generation_success c \<and> code c = None \<and> fst (generate_code e wa) = []"
  by (auto simp: generate_code_eq)

text \<open>
  C3, amended. The short-circuit is on the flag of the record, not on the outcome of the
  probe: for every state given to the synthesis stage, a record with
  \<^verbatim>\<open>analysis_success = False\<close> at index \<open>i\<close> gives a program record at index \<open>i\<close> with
  \<^verbatim>\<open>generation_success = False\<close> and no code, without any effect (no backend call) for
  that item; and the backend calls of the stage are exactly one per record that is
  flagged as analysed and has a structure, in order.
\<close>

theorem C3_short_circuit_on_flag:
  "snd (generate_scraping_code_node e st) = Returns s2 \<longrightarrow>
     length (scraping_codes s2) = length (website_analyses st) \<and>
     (\<forall>i < length (website_analyses st).
        \<not> analysis_success (website_analyses st ! i) \<longrightarrow>
          \<not> generation_success (scraping_codes s2 ! i) \<and>
          code (scraping_codes s2 ! i) = None \<and>
          fst (generate_code e (website_analyses st ! i)) = []) \<and>
     llm_calls (fst (generate_scraping_code_node e st)) =
       map (\<lambda>wa. CodeRequest (the (wa_structure wa)))
         (filter (\<lambda>wa. analysis_success wa \<and> wa_structure wa \<noteq> None) (website_analyses st)) \<and>
     length (llm_calls (fst (generate_scraping_code_node e st))) =
       length (filter (\<lambda>wa. analysis_success wa \<and> wa_structure wa \<noteq> None) (website_analyses st))"
proof
  assume g: "snd (generate_scraping_code_node e st) = Returns s2"
  from generate_scraping_code_node_Returns [OF g] obtain cs where
    s2: "s2 = st\<lparr>scraping_codes := cs\<rparr>" and
    cs: "list_all2 (\<lambda>wa c. snd (generate_code e wa) = Returns c) (website_analyses st) cs"
    by blast
  from cs have len: "length cs = length (website_analyses st)"
    by (simp add: list_all2_lengthD)
  have item: "\<not> generation_success (cs ! i) \<and> code (cs ! i) = None \<and>
      fst (generate_code e (website_analyses st ! i)) = []"
    if "i < length (website_analyses st)" "\<not> analysis_success (website_analyses st ! i)" for i
  proof -
    from cs that(1) have "snd (generate_code e (website_analyses st ! i)) = Returns (cs ! i)"
      by (simp add: list_all2_conv_all_nth)
    with that(2) show ?thesis by (rule generate_code_flagged)
  qed
  have calls: "llm_calls (fst (generate_scraping_code_node e st)) =
       map (\<lambda>wa. CodeRequest (the (wa_structure wa)))
         (filter (\<lambda>wa. analysis_success wa \<and> wa_structure wa \<noteq> None) (website_analyses st))"
    by (rule generate_scraping_code_node_calls [OF g])
  have "length (llm_calls (fst (generate_scraping_code_node e st))) =
       length (filter (\<lambda>wa. analysis_success wa \<and> wa_structure wa \<noteq> None) (website_analyses st))"
    unfolding calls by (rule length_map)
  with len item calls show "length (scraping_codes s2) = length (website_analyses st) \<and>
     (\<forall>i < length (website_analyses st).
        \<not> analysis_success (website_analyses st ! i) \<longrightarrow>
          \<not> generation_success (scraping_codes s2 ! i) \<and>
          code (scraping_codes s2 ! i) = None \<and>
          fst (generate_code e (website_analyses st ! i)) = []) \<and>
     llm_calls (fst (generate_scraping_code_node e st)) =
       map (\<lambda>wa. CodeRequest (the (wa_structure wa)))
         (filter (\<lambda>wa. analysis_success wa \<and> wa_structure wa \<noteq> None) (website_analyses st)) \<and>
     length (llm_calls (fst (generate_scraping_code_node e st))) =
       length (filter (\<lambda>wa. analysis_success wa \<and> wa_structure wa \<noteq> None) (website_analyses st))"
    unfolding s2 by simp
qed

lemma failed_analysis_generate:
  "generate_scraping_code_node demo_env failed_analysis_state =
     ([LlmInvoke (CodeRequest (inspect_page ''http://a.io'' ''a.io'' demo_page))],
      Returns (failed_analysis_state\<lparr>scraping_codes := failed_analysis_codes\<rparr>))"
  by (simp add: generate_scraping_code_node_def failed_analysis_state_def demo_state_def
      initial_state_def notify_def get_llm_def generate_code_eq return_io_def
      failed_analysis_codes_def demo_env_def extract_code_demo)

theorem C3_witness:
  "snd (generate_scraping_code_node demo_env failed_analysis_state) =
     Returns (failed_analysis_state\<lparr>scraping_codes := failed_analysis_codes\<rparr>) \<and>
   (0::nat) < length (website_analyses failed_analysis_state) \<and>
   \<not> analysis_success (website_analyses failed_analysis_state ! 0) \<and>
   \<not> generation_success (failed_analysis_codes ! 0) \<and>
   fst (generate_code demo_env (website_analyses failed_analysis_state ! 0)) = [] \<and>
   length (llm_calls (fst (generate_scraping_code_node demo_env failed_analysis_state))) = 1"
proof -
  have h: "snd (generate_scraping_code_node demo_env failed_analysis_state) =
     Returns (failed_analysis_state\<lparr>scraping_codes := failed_analysis_codes\<rparr>)"
    by (simp add: failed_analysis_generate)
  have i: "(0::nat) < length (website_analyses failed_analysis_state) \<and>
     \<not> analysis_success (website_analyses failed_analysis_state ! 0)"
    by (simp add: failed_analysis_state_def)
  have n: "length (filter (\<lambda>wa. analysis_success wa \<and> wa_structure wa \<noteq> None)
      (website_analyses failed_analysis_state)) = 1"
    by (simp add: failed_analysis_state_def)
  from C3_short_circuit_on_flag [of demo_env failed_analysis_state
      "failed_analysis_state\<lparr>scraping_codes := failed_analysis_codes\<rparr>"] h i n
  show ?thesis by auto
qed

section \<open>The execution stage has no time limit\<close>

text \<open>
  C8. \<^verbatim>\<open>execute_scraping_code_node\<close> runs the program with a bare \<^verbatim>\<open>exec\<close> and calls
  its \<^verbatim>\<open>main\<close> in the same thread; nothing bounds either. With a generated program
  that does not come back, the item, the stage and the whole run do not come back.
\<close>

theorem C8_program_without_end:
  "exec_program hanging_env ''def main(url): pass'' ''http://a.io'' = Hangs \<and>
   snd (execute_code hanging_env (demo_codes ! 0)) = Hangs \<and>
   snd (execute_scraping_code_node hanging_env
          (demo_state\<lparr>website_analyses := demo_analyses, scraping_codes := demo_codes\<rparr>)) = Hangs \<and>
   snd (run_langgraph_workflow hanging_env ''AI'' demo_urls None) = Hangs"
proof -
  have "analyze_url hanging_env = analyze_url demo_env"
    by (rule ext) (simp add: analyze_url_eq hanging_env_def split: sum.splits)
  then have a: "analyze_urls_node hanging_env demo_state = analyze_urls_node demo_env demo_state"
    by (simp add: analyze_urls_node_def)
  have "generate_code hanging_env = generate_code demo_env"
    by (rule ext) (simp add: generate_code_eq hanging_env_def split: sum.splits option.splits)
  moreover have "get_llm hanging_env = get_llm demo_env"
    by (simp add: get_llm_def hanging_env_def)
  ultimately have g: "generate_scraping_code_node hanging_env st =
      generate_scraping_code_node demo_env st" for st
    by (simp add: generate_scraping_code_node_def)
  have c: "snd (execute_code hanging_env (demo_codes ! 0)) = Hangs"
    by (simp add: execute_code_def demo_codes_def no_code_def run_program_def hanging_env_def)
  have x: "snd (execute_scraping_code_node hanging_env
          (demo_state\<lparr>website_analyses := demo_analyses, scraping_codes := demo_codes\<rparr>)) = Hangs"
    by (simp add: execute_scraping_code_node_def demo_state_def initial_state_def notify_def
        execute_code_def demo_codes_def no_code_def run_program_def hanging_env_def)
  have "snd (workflow_invoke hanging_env demo_state) = Hangs"
    by (simp add: workflow_invoke_def snd_bind_io a g demo_analyze demo_generate x)
  then have "snd (run_langgraph_workflow hanging_env ''AI'' demo_urls None) = Hangs"
    by (simp add: run_langgraph_workflow_def run_body_def notify_def demo_state_def [symmetric]
        snd_bind_io snd_try_except)
  with c x show ?thesis by (simp add: hanging_env_def)
qed

theorem C8_witness:
  "generation_success (demo_codes ! 0) \<and> \<not> no_code (code (demo_codes ! 0)) \<and>
   exec_program hanging_env (the (code (demo_codes ! 0))) (sc_url (demo_codes ! 0)) = Hangs \<and>
   snd (execute_code hanging_env (demo_codes ! 0)) = Hangs \<and>
   snd (run_langgraph_workflow hanging_env ''AI'' demo_urls None) = Hangs"
proof -
  have "generation_success (demo_codes ! 0) \<and> \<not> no_code (code (demo_codes ! 0))"
    by (simp add: demo_codes_def no_code_def)
  moreover have
    "exec_program hanging_env (the (code (demo_codes ! 0))) (sc_url (demo_codes ! 0)) = Hangs"
    by (simp add: hanging_env_def)
  ultimately show ?thesis
    using C8_program_without_end by blast
qed

section \<open>The summary stage without successful results\<close>

lemma notify_returning:
  "returning_callback cb \<Longrightarrow> snd (notify cb m) = Returns ()"
  by (simp add: notify_def returning_callback_def return_io_def split: option.splits)


lemma llm_calls_invoke [simp]: "llm_calls (fst (invoke e r)) = [r]"
  by (simp add: invoke_eq)







section \<open>Comparing runs\<close>

lemma map_outcome_id [simp]: "map_outcome (\<lambda>a. a) r = r"
  by (cases r) auto

lemma observe_return [simp]: "observe P g (return_io a) = return_io (g a)"
  by (simp add: observe_def return_io_def)

lemma observe_raise [simp]: "observe P g (raise_io x) = raise_io x"
  by (simp add: observe_def raise_io_def)

lemma observe_bind:
  "observe P g (bind_io m f) = bind_io (observe P (\<lambda>a. a) m) (\<lambda>a. observe P g (f a))"
  by (cases m; cases "snd m") (auto simp: observe_def split: prod.splits)

lemma observe_try:
  "observe P g (try_except m h) = try_except (observe P g m) (\<lambda>msg. observe P g (h msg))"
proof (cases m)
  case (Pair t r)
  show ?thesis
  proof (cases r)
    case (Raises x)
    with Pair show ?thesis by (cases x) (auto simp: observe_def split: prod.splits)
  qed (use Pair in \<open>auto simp: observe_def\<close>)
qed

lemma observe_silent:
  "list_all P (fst m) \<Longrightarrow> observe P (\<lambda>a. a) m = m"
  by (cases m) (simp add: observe_def list_all_iff)

lemma bind_observe:
  assumes "\<And>s. snd m = Returns s \<Longrightarrow> f' (g s) = observe P g' (f s)"
  shows "bind_io (observe P g m) f' = observe P g' (bind_io m f)"
proof (cases m)
  case (Pair t r)
  with assms show ?thesis
    by (cases r) (auto simp: observe_def split: prod.splits)
qed

section \<open>The events of each stage\<close>

lemma for_each_events:
  "(\<And>x. x \<in> set xs \<Longrightarrow> list_all P (fst (body x))) \<Longrightarrow>
     list_all P (fst (for_each body xs out))"
  by (induction xs arbitrary: out) (auto simp: fst_bind_io split: outcome.splits)

lemma analyze_url_events: "fst (analyze_url e u) = [HttpGet u]"
  by (simp add: analyze_url_eq)

lemma generate_code_events:
  "list_all (\<lambda>ev. \<exists>r. ev = LlmInvoke r) (fst (generate_code e wa))"
  by (simp add: generate_code_eq split: option.splits)

lemma execute_code_eq:
  "execute_code e ci =
     (if \<not> generation_success ci \<or> no_code (code ci) then
        ([], Returns \<lparr>sd_url = sc_url ci, data = PyNone, execution_success = False,
                      sd_error = Some (case sc_error ci of Some msg \<Rightarrow> msg
                                       | None \<Rightarrow> ''No code to execute'')\<rparr>)
      else
        ([Exec (the (code ci)) (sc_url ci)],
         case exec_program e (the (code ci)) (sc_url ci) of
           Returns (MainReturned v) \<Rightarrow>
             Returns \<lparr>sd_url = sc_url ci, data = v, execution_success = True, sd_error = None\<rparr>
         | Returns NoMain \<Rightarrow>
             Returns \<lparr>sd_url = sc_url ci, data = PyNone, execution_success = False,
                      sd_error = Some ''No main function found in generated code''\<rparr>
         | Raises (PyException msg) \<Rightarrow>
             Returns \<lparr>sd_url = sc_url ci, data = PyNone, execution_success = False,
                      sd_error = Some msg\<rparr>
         | Raises (PyBaseException msg) \<Rightarrow> Raises (PyBaseException msg)
         | Hangs \<Rightarrow> Hangs))"
proof (cases "exec_program e (the (code ci)) (sc_url ci)")
  case (Returns r)
  then show ?thesis
    by (cases r) (simp_all add: execute_code_def run_program_def return_io_def)
next
  case (Raises x)
  then show ?thesis
    by (cases x) (simp_all add: execute_code_def run_program_def return_io_def)
next
  case Hangs
  then show ?thesis
    by (simp add: execute_code_def run_program_def return_io_def)
qed

lemma execute_code_events:
  "list_all (\<lambda>ev. \<exists>c u. ev = Exec c u) (fst (execute_code e ci))"
  by (simp add: execute_code_eq)


section \<open>What a stage does not depend on\<close>

lemma observe_everything [simp]: "observe (\<lambda>ev. True) (\<lambda>a. a) m = m"
  by (cases m) (simp add: observe_def)

lemma map_outcome_unit [simp]: "map_outcome g (r :: unit outcome) = r"
  by (cases r) auto

lemma observe_get_llm [simp]: "observe P g (get_llm e) = get_llm e"
  by (simp add: observe_def get_llm_def return_io_def raise_io_def split: option.splits)

lemma observe_json_dumps [simp]: "observe P g (json_dumps d) = json_dumps d"
  by (simp add: observe_def json_dumps_def return_io_def raise_io_def split: list.splits)

lemma observe_invoke: "P (LlmInvoke r) \<Longrightarrow> observe P (\<lambda>a. a) (invoke e r) = invoke e r"
  by (simp add: observe_def invoke_eq)

lemma observe_for_each:
  "(\<And>x. list_all P (fst (body x))) \<Longrightarrow>
     observe P (\<lambda>a. a) (for_each body xs out) = for_each body xs out"
  by (rule observe_silent) (simp add: for_each_events)

lemma observe_notify_returning:
  "returning_callback cb \<Longrightarrow>
     observe (\<lambda>ev. \<not> is_progress ev) g (notify cb m) = return_io ()"
  by (simp add: observe_def notify_def returning_callback_def return_io_def split: option.splits)

lemma erase_commute:
  "st\<lparr>progress_callback := c, website_analyses := x1\<rparr> = st\<lparr>website_analyses := x1, progress_callback := c\<rparr>"
  "st\<lparr>progress_callback := c, scraping_codes := x2\<rparr> = st\<lparr>scraping_codes := x2, progress_callback := c\<rparr>"
  "st\<lparr>progress_callback := c, scraped_data := x3\<rparr> = st\<lparr>scraped_data := x3, progress_callback := c\<rparr>"
  "st\<lparr>progress_callback := c, summary := x4\<rparr> = st\<lparr>summary := x4, progress_callback := c\<rparr>"
  "st\<lparr>progress_callback := c, video_script := x5\<rparr> = st\<lparr>video_script := x5, progress_callback := c\<rparr>"
  "st\<lparr>progress_callback := c, social_media := x6\<rparr> = st\<lparr>social_media := x6, progress_callback := c\<rparr>"
  by simp_all

lemma notify_None [simp]: "notify None m = return_io ()"
  by (simp add: notify_def)

lemmas observe_stage =
  observe_bind observe_try observe_invoke observe_for_each erase_commute

subsection \<open>The callback, when it returns\<close>

lemma analyze_urls_node_erase:
  assumes "returning_callback (progress_callback st)"
  shows "analyze_urls_node e (st\<lparr>progress_callback := None\<rparr>) =
     observe (\<lambda>ev. \<not> is_progress ev) (\<lambda>s. s\<lparr>progress_callback := None\<rparr>) (analyze_urls_node e st)"
  using assms
  by (simp add: analyze_urls_node_def observe_stage observe_notify_returning analyze_url_events)

lemma generate_scraping_code_node_erase:
  assumes "returning_callback (progress_callback st)"
  shows "generate_scraping_code_node e (st\<lparr>progress_callback := None\<rparr>) =
     observe (\<lambda>ev. \<not> is_progress ev) (\<lambda>s. s\<lparr>progress_callback := None\<rparr>)
       (generate_scraping_code_node e st)"
proof -
  have "list_all (\<lambda>ev. \<not> is_progress ev) (fst (generate_code e wa))" for wa
    using generate_code_events [of e wa] by (auto simp: list_all_iff)
  with assms show ?thesis
    by (simp add: generate_scraping_code_node_def observe_stage observe_notify_returning)
qed

lemma execute_scraping_code_node_erase:
  assumes "returning_callback (progress_callback st)"
  shows "execute_scraping_code_node e (st\<lparr>progress_callback := None\<rparr>) =
     observe (\<lambda>ev. \<not> is_progress ev) (\<lambda>s. s\<lparr>progress_callback := None\<rparr>)
       (execute_scraping_code_node e st)"
proof -
  have "list_all (\<lambda>ev. \<not> is_progress ev) (fst (execute_code e ci))" for ci
    using execute_code_events [of e ci] by (auto simp: list_all_iff)
  with assms show ?thesis
    by (simp add: execute_scraping_code_node_def observe_stage observe_notify_returning)
qed

lemma summary_agent_node_erase:
  assumes "returning_callback (progress_callback st)"
  shows "summary_agent_node e (st\<lparr>progress_callback := None\<rparr>) =
     observe (\<lambda>ev. \<not> is_progress ev) (\<lambda>s. s\<lparr>progress_callback := None\<rparr>)
       (summary_agent_node e st)"
  using assms
  by (simp add: summary_agent_node_def observe_stage observe_notify_returning)

lemma script_writer_node_erase:
  assumes "returning_callback (progress_callback st)"
  shows "script_writer_node e (st\<lparr>progress_callback := None\<rparr>) =
     observe (\<lambda>ev. \<not> is_progress ev) (\<lambda>s. s\<lparr>progress_callback := None\<rparr>)
       (script_writer_node e st)"
  using assms
  by (simp add: script_writer_node_def observe_stage observe_notify_returning)

lemma social_media_writer_node_erase:
  assumes "returning_callback (progress_callback st)"
  shows "social_media_writer_node e (st\<lparr>progress_callback := None\<rparr>) =
     observe (\<lambda>ev. \<not> is_progress ev) (\<lambda>s. s\<lparr>progress_callback := None\<rparr>)
       (social_media_writer_node e st)"
  using assms
  by (simp add: social_media_writer_node_def observe_stage observe_notify_returning)


lemma nodes_keep_callback:
  "snd (analyze_urls_node e st) = Returns s \<Longrightarrow> progress_callback s = progress_callback st"
  "snd (generate_scraping_code_node e st) = Returns s \<Longrightarrow> progress_callback s = progress_callback st"
  "snd (execute_scraping_code_node e st) = Returns s \<Longrightarrow> progress_callback s = progress_callback st"
  "snd (summary_agent_node e st) = Returns s \<Longrightarrow> progress_callback s = progress_callback st"
  "snd (script_writer_node e st) = Returns s \<Longrightarrow> progress_callback s = progress_callback st"
  "snd (social_media_writer_node e st) = Returns s \<Longrightarrow> progress_callback s = progress_callback st"
  using analyze_urls_node_Returns [of e st s] generate_scraping_code_node_Returns [of e st s]
    execute_scraping_code_node_Returns [of e st s] summary_agent_node_Returns [of e st s]
    script_writer_node_Returns [of e st s] social_media_writer_node_Returns [of e st s]
  by auto

lemma workflow_invoke_erase:
  assumes "returning_callback (progress_callback st)"
  shows "workflow_invoke e (st\<lparr>progress_callback := None\<rparr>) =
     observe (\<lambda>ev. \<not> is_progress ev) (\<lambda>s. s\<lparr>progress_callback := None\<rparr>) (workflow_invoke e st)"
  unfolding workflow_invoke_def
proof (subst analyze_urls_node_erase [OF assms], rule bind_observe)
  fix s1 assume "snd (analyze_urls_node e st) = Returns s1"
  with assms have c1: "returning_callback (progress_callback s1)"
    by (simp add: nodes_keep_callback)
  show "bind_io (generate_scraping_code_node e (s1\<lparr>progress_callback := None\<rparr>))
          (\<lambda>s2. bind_io (execute_scraping_code_node e s2)
            (\<lambda>s3. bind_io (summary_agent_node e s3)
              (\<lambda>s4. bind_io (script_writer_node e s4) (social_media_writer_node e)))) =
        observe (\<lambda>ev. \<not> is_progress ev) (\<lambda>s. s\<lparr>progress_callback := None\<rparr>)
          (bind_io (generate_scraping_code_node e s1)
            (\<lambda>s2. bind_io (execute_scraping_code_node e s2)
              (\<lambda>s3. bind_io (summary_agent_node e s3)
                (\<lambda>s4. bind_io (script_writer_node e s4) (social_media_writer_node e)))))"
  proof (subst generate_scraping_code_node_erase [OF c1], rule bind_observe)
    fix s2 assume "snd (generate_scraping_code_node e s1) = Returns s2"
    with c1 have c2: "returning_callback (progress_callback s2)"
      by (simp add: nodes_keep_callback)
    show "bind_io (execute_scraping_code_node e (s2\<lparr>progress_callback := None\<rparr>))
            (\<lambda>s3. bind_io (summary_agent_node e s3)
              (\<lambda>s4. bind_io (script_writer_node e s4) (social_media_writer_node e))) =
          observe (\<lambda>ev. \<not> is_progress ev) (\<lambda>s. s\<lparr>progress_callback := None\<rparr>)
            (bind_io (execute_scraping_code_node e s2)
              (\<lambda>s3. bind_io (summary_agent_node e s3)
                (\<lambda>s4. bind_io (script_writer_node e s4) (social_media_writer_node e))))"
    proof (subst execute_scraping_code_node_erase [OF c2], rule bind_observe)
      fix s3 assume "snd (execute_scraping_code_node e s2) = Returns s3"
      with c2 have c3: "returning_callback (progress_callback s3)"
        by (simp add: nodes_keep_callback)
      show "bind_io (summary_agent_node e (s3\<lparr>progress_callback := None\<rparr>))
              (\<lambda>s4. bind_io (script_writer_node e s4) (social_media_writer_node e)) =
            observe (\<lambda>ev. \<not> is_progress ev) (\<lambda>s. s\<lparr>progress_callback := None\<rparr>)
              (bind_io (summary_agent_node e s3)
                (\<lambda>s4. bind_io (script_writer_node e s4) (social_media_writer_node e)))"
      proof (subst summary_agent_node_erase [OF c3], rule bind_observe)
        fix s4 assume "snd (summary_agent_node e s3) = Returns s4"
        with c3 have c4: "returning_callback (progress_callback s4)"
          by (simp add: nodes_keep_callback)
        show "bind_io (script_writer_node e (s4\<lparr>progress_callback := None\<rparr>))
                (social_media_writer_node e) =
              observe (\<lambda>ev. \<not> is_progress ev) (\<lambda>s. s\<lparr>progress_callback := None\<rparr>)
                (bind_io (script_writer_node e s4) (social_media_writer_node e))"
        proof (subst script_writer_node_erase [OF c4], rule bind_observe)
          fix s5 assume "snd (script_writer_node e s4) = Returns s5"
          with c4 have c5: "returning_callback (progress_callback s5)"
            by (simp add: nodes_keep_callback)
          then show "social_media_writer_node e (s5\<lparr>progress_callback := None\<rparr>) =
              observe (\<lambda>ev. \<not> is_progress ev) (\<lambda>s. s\<lparr>progress_callback := None\<rparr>)
                (social_media_writer_node e s5)"
            by (rule social_media_writer_node_erase)
        qed
      qed
    qed
  qed
qed

lemma final_bundle_erase [simp]:
  "final_bundle (s\<lparr>progress_callback := c\<rparr>) = final_bundle s"
  by (simp add: final_bundle_def)

lemma bind_observe_return:
  "bind_io (observe P g m) (\<lambda>a. return_io (k a)) = observe P (\<lambda>a. k (g a)) m"
proof (cases m)
  case (Pair t r)
  then show ?thesis
    by (cases r) (auto simp: observe_def return_io_def)
qed

lemma run_langgraph_workflow_erase:
  assumes "returning_callback cb"
  shows "run_langgraph_workflow e tp urls None =
     observe (\<lambda>ev. \<not> is_progress ev) (\<lambda>b. b) (run_langgraph_workflow e tp urls cb)"
proof -
  let ?P = "\<lambda>ev. \<not> is_progress ev"
  have st: "initial_state tp urls None = (initial_state tp urls cb)\<lparr>progress_callback := None\<rparr>"
    by (simp add: initial_state_def)
  have cb: "returning_callback (progress_callback (initial_state tp urls cb))"
    using assms by (simp add: initial_state_def)
  show ?thesis
    unfolding run_langgraph_workflow_def run_body_def
    by (simp add: observe_try observe_bind observe_notify_returning [OF assms] st
        workflow_invoke_erase [OF cb] bind_observe_return)
qed


text \<open>
  C9, as stated, fails. The callback is called outside every \<^verbatim>\<open>try\<close> of the nodes, and
  inside the outermost \<^verbatim>\<open>try\<close> of the run. A callback that raises at the first message
  ends the run before any stage: the bundle is the failure bundle, not the bundle of the
  run without a callback.
\<close>

theorem C9_counterexample:
  "run_langgraph_workflow demo_env ''AI'' demo_urls (Some failing_callback) =
     ([Progress msg_start], Returns (failure_bundle ''widget is gone'')) \<and>
   snd (run_langgraph_workflow demo_env ''AI'' demo_urls None) = Returns demo_bundle \<and>
   processed_urls (failure_bundle ''widget is gone'') = [] \<and>
   processed_urls demo_bundle = [''http://a.io'', ''http://down.io'', ''http://slow.io'']"
proof -
  have "run_langgraph_workflow demo_env ''AI'' demo_urls (Some failing_callback) =
     ([Progress msg_start], Returns (failure_bundle ''widget is gone''))"
    by (simp add: run_langgraph_workflow_def run_body_def notify_def failing_callback_def
        return_io_def)
  with demo_run show ?thesis
    by (simp add: failure_bundle_def demo_bundle_def)
qed

text \<open>
  C9, amended. A callback that returns on every message does not alter the run: the
  bundle (or other outcome) is the one of the run without a callback, and so is the
  sequence of fetches, backend calls and program runs.
\<close>

theorem C9_returning_callback_is_unobserved:
  assumes "\<forall>msg. f msg = Returns ()"
  shows "snd (run_langgraph_workflow e tp urls (Some f)) =
           snd (run_langgraph_workflow e tp urls None) \<and>
         filter (\<lambda>ev. \<not> is_progress ev) (fst (run_langgraph_workflow e tp urls (Some f))) =
           fst (run_langgraph_workflow e tp urls None)"
proof -
  from assms have "returning_callback (Some f)"
    by (simp add: returning_callback_def)
  from run_langgraph_workflow_erase [OF this, of e tp urls] show ?thesis
    by (simp add: observe_def)
qed

theorem C9_witness:
  "snd (run_langgraph_workflow demo_env ''AI'' demo_urls (Some quiet_callback)) = Returns demo_bundle"
proof -
  have "\<forall>msg. quiet_callback msg = Returns ()"
    by (simp add: quiet_callback_def)
  from C9_returning_callback_is_unobserved [OF this, of demo_env "''AI''" demo_urls] demo_run
  show ?thesis by simp
qed



section \<open>The cap on the seed URLs\<close>

lemma observe_everything_unit [simp]: "observe (\<lambda>ev. True) g (m :: unit io) = m"
  by (cases m) (simp add: observe_def)

lemma truncate_commute:
  "st\<lparr>trend_urls := c, website_analyses := x1\<rparr> = st\<lparr>website_analyses := x1, trend_urls := c\<rparr>"
  "st\<lparr>trend_urls := c, scraping_codes := x2\<rparr> = st\<lparr>scraping_codes := x2, trend_urls := c\<rparr>"
  "st\<lparr>trend_urls := c, scraped_data := x3\<rparr> = st\<lparr>scraped_data := x3, trend_urls := c\<rparr>"
  "st\<lparr>trend_urls := c, summary := x4\<rparr> = st\<lparr>summary := x4, trend_urls := c\<rparr>"
  "st\<lparr>trend_urls := c, video_script := x5\<rparr> = st\<lparr>video_script := x5, trend_urls := c\<rparr>"
  "st\<lparr>trend_urls := c, social_media := x6\<rparr> = st\<lparr>social_media := x6, trend_urls := c\<rparr>"
  by simp_all

lemmas truncate_stage =
  observe_bind observe_try observe_invoke observe_for_each truncate_commute

lemma analyze_urls_node_truncate:
  "analyze_urls_node e (st\<lparr>trend_urls := take 3 (trend_urls st)\<rparr>) =
     observe (\<lambda>ev. True) (\<lambda>s. s\<lparr>trend_urls := take 3 (trend_urls st)\<rparr>) (analyze_urls_node e st)"
  by (simp add: analyze_urls_node_def truncate_stage)

lemma generate_scraping_code_node_truncate:
  "generate_scraping_code_node e (st\<lparr>trend_urls := x\<rparr>) =
     observe (\<lambda>ev. True) (\<lambda>s. s\<lparr>trend_urls := x\<rparr>) (generate_scraping_code_node e st)"
  by (simp add: generate_scraping_code_node_def truncate_stage)

lemma execute_scraping_code_node_truncate:
  "execute_scraping_code_node e (st\<lparr>trend_urls := x\<rparr>) =
     observe (\<lambda>ev. True) (\<lambda>s. s\<lparr>trend_urls := x\<rparr>) (execute_scraping_code_node e st)"
  by (simp add: execute_scraping_code_node_def truncate_stage)

lemma summary_agent_node_truncate:
  "summary_agent_node e (st\<lparr>trend_urls := x\<rparr>) =
     observe (\<lambda>ev. True) (\<lambda>s. s\<lparr>trend_urls := x\<rparr>) (summary_agent_node e st)"
  by (simp add: summary_agent_node_def truncate_stage)

lemma script_writer_node_truncate:
  "script_writer_node e (st\<lparr>trend_urls := x\<rparr>) =
     observe (\<lambda>ev. True) (\<lambda>s. s\<lparr>trend_urls := x\<rparr>) (script_writer_node e st)"
  by (simp add: script_writer_node_def truncate_stage)

lemma social_media_writer_node_truncate:
  "social_media_writer_node e (st\<lparr>trend_urls := x\<rparr>) =
     observe (\<lambda>ev. True) (\<lambda>s. s\<lparr>trend_urls := x\<rparr>) (social_media_writer_node e st)"
  by (simp add: social_media_writer_node_def truncate_stage)

lemma workflow_invoke_truncate:
  "workflow_invoke e (st\<lparr>trend_urls := take 3 (trend_urls st)\<rparr>) =
     observe (\<lambda>ev. True) (\<lambda>s. s\<lparr>trend_urls := take 3 (trend_urls st)\<rparr>) (workflow_invoke e st)"
  unfolding workflow_invoke_def
  apply (subst analyze_urls_node_truncate)
  apply (rule bind_observe)
  apply (subst generate_scraping_code_node_truncate)
  apply (rule bind_observe)
  apply (subst execute_scraping_code_node_truncate)
  apply (rule bind_observe)
  apply (subst summary_agent_node_truncate)
  apply (rule bind_observe)
  apply (subst script_writer_node_truncate)
  apply (rule bind_observe)
  apply (rule social_media_writer_node_truncate)
  done

lemma final_bundle_truncate [simp]:
  "final_bundle (s\<lparr>trend_urls := x\<rparr>) = final_bundle s"
  by (simp add: final_bundle_def)

lemma run_langgraph_workflow_truncate:
  "run_langgraph_workflow e tp (take 3 urls) cb = run_langgraph_workflow e tp urls cb"
proof -
  let ?st = "initial_state tp urls cb"
  have st: "initial_state tp (take 3 urls) cb = ?st\<lparr>trend_urls := take 3 (trend_urls ?st)\<rparr>"
    by (simp add: initial_state_def)
  have "bind_io (workflow_invoke e (initial_state tp (take 3 urls) cb))
          (\<lambda>final_state. bind_io (notify cb msg_done) (\<lambda>_. return_io (final_bundle final_state))) =
        observe (\<lambda>ev. True) (\<lambda>b. b)
          (bind_io (workflow_invoke e ?st)
            (\<lambda>final_state. bind_io (notify cb msg_done) (\<lambda>_. return_io (final_bundle final_state))))"
    unfolding st workflow_invoke_truncate
    by (rule bind_observe) (simp add: observe_bind)
  then show ?thesis
    by (simp add: run_langgraph_workflow_def run_body_def)
qed


subsection \<open>The page fetches of a run\<close>

lemma fetched_append [simp]: "fetched (a @ b) = fetched a @ fetched b"
  by (simp add: fetched_def)

lemma fetched_simps [simp]:
  "fetched [] = []"
  "fetched (HttpGet u # t) = u # fetched t"
  "fetched (Progress m # t) = fetched t"
  "fetched (LlmInvoke r # t) = fetched t"
  "fetched (Exec c u # t) = fetched t"
  by (simp_all add: fetched_def)

lemma fetched_map_HttpGet [simp]: "fetched (map HttpGet us) = us"
  by (induction us) auto

lemma fetched_silent: "list_all (\<lambda>ev. \<forall>u. ev \<noteq> HttpGet u) t \<Longrightarrow> fetched t = []"
proof (induction t)
  case (Cons ev t)
  then show ?case by (cases ev) auto
qed simp

lemma events_bind_io:
  "list_all P (fst m) \<Longrightarrow> (\<And>a. list_all P (fst (f a))) \<Longrightarrow> list_all P (fst (bind_io m f))"
  by (simp add: fst_bind_io split: outcome.splits)

lemma events_try_except:
  "list_all P (fst m) \<Longrightarrow> (\<And>msg. list_all P (fst (h msg))) \<Longrightarrow>
     list_all P (fst (try_except m h))"
  by (simp add: fst_try_except split: outcome.splits py_exc.splits)

lemma events_notify: "P (Progress m) \<Longrightarrow> list_all P (fst (notify cb m))"
  by (simp add: notify_def return_io_def split: option.splits)

lemma events_get_llm [simp]: "fst (get_llm e) = []"
  by (simp add: get_llm_def return_io_def raise_io_def split: option.splits)

lemma events_json_dumps [simp]: "fst (json_dumps d) = []"
  by (simp add: json_dumps_def return_io_def raise_io_def split: list.splits)

lemma events_invoke [simp]: "fst (invoke e r) = [LlmInvoke r]"
  by (simp add: invoke_eq)

lemma no_fetch_after_analysis:
  "list_all (\<lambda>ev. \<forall>u. ev \<noteq> HttpGet u) (fst (generate_scraping_code_node e st))"
  "list_all (\<lambda>ev. \<forall>u. ev \<noteq> HttpGet u) (fst (execute_scraping_code_node e st))"
  "list_all (\<lambda>ev. \<forall>u. ev \<noteq> HttpGet u) (fst (summary_agent_node e st))"
  "list_all (\<lambda>ev. \<forall>u. ev \<noteq> HttpGet u) (fst (script_writer_node e st))"
  "list_all (\<lambda>ev. \<forall>u. ev \<noteq> HttpGet u) (fst (social_media_writer_node e st))"
proof -
  have g: "list_all (\<lambda>ev. \<forall>u. ev \<noteq> HttpGet u) (fst (generate_code e wa))" for wa
    using generate_code_events [of e wa] by (auto simp: list_all_iff)
  have x: "list_all (\<lambda>ev. \<forall>u. ev \<noteq> HttpGet u) (fst (execute_code e ci))" for ci
    using execute_code_events [of e ci] by (auto simp: list_all_iff)
  show "list_all (\<lambda>ev. \<forall>u. ev \<noteq> HttpGet u) (fst (generate_scraping_code_node e st))"
    unfolding generate_scraping_code_node_def
    by (intro events_bind_io events_notify for_each_events g) simp_all
  show "list_all (\<lambda>ev. \<forall>u. ev \<noteq> HttpGet u) (fst (execute_scraping_code_node e st))"
    unfolding execute_scraping_code_node_def
    by (intro events_bind_io events_notify for_each_events x) simp_all
  show "list_all (\<lambda>ev. \<forall>u. ev \<noteq> HttpGet u) (fst (summary_agent_node e st))"
    unfolding summary_agent_node_def
    by (intro events_bind_io events_notify)
       (auto intro!: events_bind_io events_try_except)
  show "list_all (\<lambda>ev. \<forall>u. ev \<noteq> HttpGet u) (fst (script_writer_node e st))"
    unfolding script_writer_node_def
    by (intro events_bind_io events_notify events_try_except) simp_all
  show "list_all (\<lambda>ev. \<forall>u. ev \<noteq> HttpGet u) (fst (social_media_writer_node e st))"
    unfolding social_media_writer_node_def
    by (intro events_bind_io events_notify events_try_except) simp_all
qed

lemma for_each_analyze_url:
  "fst (for_each (analyze_url e) us out) = map HttpGet us \<and>
   (\<exists>rs. snd (for_each (analyze_url e) us out) = Returns rs)"
  by (induction us arbitrary: out) (auto simp: fst_bind_io snd_bind_io analyze_url_eq)

lemma fetched_analyze_urls_node:
  "fetched (fst (analyze_urls_node e st)) =
     (if snd (notify (progress_callback st) msg_analyze) = Returns ()
      then take 3 (trend_urls st) else [])"
proof -
  have n: "fetched (fst (notify cb m)) = []" for cb m
    by (simp add: notify_def return_io_def split: option.splits)
  obtain rs where "snd (for_each (analyze_url e) (take 3 (trend_urls st)) []) = Returns rs"
    using for_each_analyze_url by blast
  then show ?thesis
    using for_each_analyze_url [of e "take 3 (trend_urls st)" "[]"]
    by (auto simp: analyze_urls_node_def fst_bind_io n split: outcome.splits)
qed

lemma fetched_workflow_invoke:
  "fetched (fst (workflow_invoke e st)) = fetched (fst (analyze_urls_node e st))"
proof -
  have "list_all (\<lambda>ev. \<forall>u. ev \<noteq> HttpGet u)
    (fst (bind_io (generate_scraping_code_node e s1) (\<lambda>s2.
          bind_io (execute_scraping_code_node e s2) (\<lambda>s3.
          bind_io (summary_agent_node e s3) (\<lambda>s4.
          bind_io (script_writer_node e s4) (social_media_writer_node e))))))" for s1
    by (intro events_bind_io no_fetch_after_analysis)
  then show ?thesis
    by (simp add: workflow_invoke_def fst_bind_io fetched_silent split: outcome.splits)
qed

lemma fetched_run:
  "fetched (fst (run_langgraph_workflow e tp urls cb)) =
     (if snd (notify cb msg_start) = Returns () \<and> snd (notify cb msg_analyze) = Returns ()
      then take 3 urls else [])"
proof -
  have n: "fetched (fst (notify c m)) = []" for c m
    by (simp add: notify_def return_io_def split: option.splits)
  have "fetched (fst (run_body e tp urls cb)) =
     (if snd (notify cb msg_start) = Returns () \<and> snd (notify cb msg_analyze) = Returns ()
      then take 3 urls else [])"
    by (auto simp: run_body_def fst_bind_io n fetched_workflow_invoke fetched_analyze_urls_node
        initial_state_def split: outcome.splits)
  then show ?thesis
    by (simp add: run_langgraph_workflow_def fst_try_except split: outcome.splits py_exc.splits)
qed

lemma workflow_invoke_processed:
  assumes "snd (workflow_invoke e st) = Returns sf"
  shows "map wa_url (website_analyses sf) = take 3 (trend_urls st)"
proof -
  from assms obtain s1 s2 s3 s4 s5 where
    "snd (analyze_urls_node e st) = Returns s1"
    "snd (generate_scraping_code_node e s1) = Returns s2"
    "snd (execute_scraping_code_node e s2) = Returns s3"
    and s4: "snd (summary_agent_node e s3) = Returns s4"
    and s5: "snd (script_writer_node e s4) = Returns s5"
    and s6: "snd (social_media_writer_node e s5) = Returns sf"
    by (auto simp: workflow_invoke_def bind_io_Returns_iff)
  from fan_out_urls [OF this(1,2,3)]
    summary_agent_node_Returns [OF s4] script_writer_node_Returns [OF s5]
    social_media_writer_node_Returns [OF s6]
  show ?thesis by auto
qed

lemma run_Returns_cases:
  assumes "snd (run_langgraph_workflow e tp urls cb) = Returns b"
  shows "(\<exists>msg. snd (run_body e tp urls cb) = Raises (PyException msg) \<and> b = failure_bundle msg) \<or>
         (\<exists>sf. snd (workflow_invoke e (initial_state tp urls cb)) = Returns sf \<and> b = final_bundle sf)"
  using assms
  by (auto simp: run_langgraph_workflow_def snd_try_except run_body_def bind_io_Returns_iff
      split: outcome.splits py_exc.splits)

text \<open>
  C6. Only the first three URLs of the input are processed: the run, trace and outcome,
  is the run on the first three URLs alone, and the pages fetched are those three, in
  order (none when the callback stops the run earlier). The list \<^verbatim>\<open>processed_urls\<close> of a
  returned bundle has at most three elements: the first three URLs, or none in the failure
  bundle. Given seven URLs, the three are the first, second and third.
\<close>

theorem C6_only_first_three:
  "run_langgraph_workflow e tp urls cb = run_langgraph_workflow e tp (take 3 urls) cb \<and>
   (fetched (fst (run_langgraph_workflow e tp urls cb)) = take 3 urls \<or>
    fetched (fst (run_langgraph_workflow e tp urls cb)) = []) \<and>
   (returning_callback cb \<longrightarrow>
      fetched (fst (run_langgraph_workflow e tp urls cb)) = take 3 urls) \<and>
   (snd (run_langgraph_workflow e tp urls cb) = Returns b \<longrightarrow>
      length (processed_urls b) \<le> 3 \<and>
      (processed_urls b = take 3 urls \<or> processed_urls b = [])) \<and>
   (length urls = 7 \<longrightarrow> take 3 urls = [urls ! 0, urls ! 1, urls ! 2])"
proof (intro conjI impI)
  show "run_langgraph_workflow e tp urls cb = run_langgraph_workflow e tp (take 3 urls) cb"
    by (rule run_langgraph_workflow_truncate [symmetric])
  show "fetched (fst (run_langgraph_workflow e tp urls cb)) = take 3 urls \<or>
    fetched (fst (run_langgraph_workflow e tp urls cb)) = []"
    by (simp add: fetched_run)
  show "fetched (fst (run_langgraph_workflow e tp urls cb)) = take 3 urls"
    if "returning_callback cb"
    using that by (simp add: fetched_run notify_returning)
  show "length (processed_urls b) \<le> 3" "processed_urls b = take 3 urls \<or> processed_urls b = []"
    if "snd (run_langgraph_workflow e tp urls cb) = Returns b"
    using run_Returns_cases [OF that]
    by (auto simp: failure_bundle_def final_bundle_def initial_state_def
        dest!: workflow_invoke_processed)
  show "take 3 urls = [urls ! 0, urls ! 1, urls ! 2]" if "length urls = 7"
  proof -
    from that obtain a b c rest where "urls = a # b # c # rest"
      by (cases urls; cases "tl urls"; cases "tl (tl urls)") auto
    then show ?thesis by simp
  qed
qed

theorem C6_witness:
  "length demo_urls = 7 \<and>
   returning_callback None \<and>
   snd (run_langgraph_workflow demo_env ''AI'' demo_urls None) = Returns demo_bundle \<and>
   fetched (fst (run_langgraph_workflow demo_env ''AI'' demo_urls None)) =
     [''http://a.io'', ''http://down.io'', ''http://slow.io''] \<and>
   processed_urls demo_bundle = [''http://a.io'', ''http://down.io'', ''http://slow.io''] \<and>
   [demo_urls ! 0, demo_urls ! 1, demo_urls ! 2] =
     [''http://a.io'', ''http://down.io'', ''http://slow.io'']"
proof -
  have h1: "length demo_urls = 7" by (simp add: demo_urls_def)
  have h2: "returning_callback None" by (simp add: returning_callback_def)
  have t: "take 3 demo_urls = [''http://a.io'', ''http://down.io'', ''http://slow.io'']"
    by (simp add: demo_urls_def)
  have p: "processed_urls demo_bundle = [''http://a.io'', ''http://down.io'', ''http://slow.io'']"
    by (simp add: demo_bundle_def)
  note c6 = C6_only_first_three [of demo_env "''AI''" demo_urls None demo_bundle]
  from c6 h2 have "fetched (fst (run_langgraph_workflow demo_env ''AI'' demo_urls None)) =
      take 3 demo_urls"
    by blast
  with t have f: "fetched (fst (run_langgraph_workflow demo_env ''AI'' demo_urls None)) =
      [''http://a.io'', ''http://down.io'', ''http://slow.io'']"
    by (simp only:)
  from c6 h1 have "take 3 demo_urls = [demo_urls ! 0, demo_urls ! 1, demo_urls ! 2]"
    by blast
  with t have n: "[demo_urls ! 0, demo_urls ! 1, demo_urls ! 2] =
      [''http://a.io'', ''http://down.io'', ''http://slow.io'']"
    by (simp only:)
  from h1 h2 demo_run f p n show ?thesis
    by (intro conjI)
qed


section \<open>The outermost guard\<close>

lemma benign_try_except:
  assumes "benign (snd m)" and "\<And>msg. benign (snd (h msg))"
  shows "benign (snd (try_except m h))"
proof (cases "snd m")
  case (Raises x)
  with assms show ?thesis by (cases x) (auto simp: snd_try_except)
qed (use assms in \<open>auto simp: snd_try_except\<close>)

lemma benign_notify: "benign_callback cb \<Longrightarrow> benign (snd (notify cb m))"
  by (simp add: notify_def benign_callback_def return_io_def split: option.splits)

lemma benign_get_llm [simp]: "benign (snd (get_llm e))"
  by (simp add: get_llm_def split: option.splits)

lemma benign_json_dumps [simp]: "benign (snd (json_dumps d))"
  by (simp add: json_dumps_def split: list.splits)

lemma benign_invoke [simp]: "benign (snd (invoke e r))"
  by (simp add: invoke_eq split: sum.splits)

lemma benign_analyze_url [simp]: "benign (snd (analyze_url e u))"
  by (simp add: analyze_url_eq)

lemma benign_generate_code [simp]: "benign (snd (generate_code e wa))"
  by (simp add: generate_code_eq split: option.splits)

lemma benign_execute_code:
  assumes "\<forall>c u. benign (exec_program e c u)"
  shows "benign (snd (execute_code e ci))"
proof (cases "exec_program e (the (code ci)) (sc_url ci)")
  case (Returns r)
  then show ?thesis by (cases r) (simp_all add: execute_code_eq)
next
  case (Raises x)
  with assms [rule_format, of "the (code ci)" "sc_url ci"] show ?thesis
    by (cases x) (simp_all add: execute_code_eq)
next
  case Hangs
  with assms [rule_format, of "the (code ci)" "sc_url ci"] show ?thesis
    by simp
qed

lemma benign_nodes:
  assumes "benign_callback (progress_callback st)"
  shows "benign (snd (analyze_urls_node e st))"
    and "benign (snd (generate_scraping_code_node e st))"
    and "\<forall>c u. benign (exec_program e c u) \<Longrightarrow> benign (snd (execute_scraping_code_node e st))"
    and "benign (snd (summary_agent_node e st))"
    and "benign (snd (script_writer_node e st))"
    and "benign (snd (social_media_writer_node e st))"
proof -
  note n = benign_notify [OF assms]
  show "benign (snd (analyze_urls_node e st))"
    unfolding analyze_urls_node_def
    by (intro benign_bind_io n for_each_benign) simp_all
  show "benign (snd (generate_scraping_code_node e st))"
    unfolding generate_scraping_code_node_def
    by (intro benign_bind_io n for_each_benign) simp_all
  show "benign (snd (execute_scraping_code_node e st))" if "\<forall>c u. benign (exec_program e c u)"
    unfolding execute_scraping_code_node_def
    by (intro benign_bind_io n for_each_benign benign_execute_code that) simp_all
  show "benign (snd (summary_agent_node e st))"
    unfolding summary_agent_node_def
    by (intro benign_bind_io n) (auto intro!: benign_bind_io benign_try_except)
  show "benign (snd (script_writer_node e st))"
    unfolding script_writer_node_def
    by (intro benign_bind_io n benign_try_except) simp_all
  show "benign (snd (social_media_writer_node e st))"
    unfolding social_media_writer_node_def
    by (intro benign_bind_io n benign_try_except) simp_all
qed

lemma benign_workflow_invoke:
  assumes "\<forall>c u. benign (exec_program e c u)" and "benign_callback (progress_callback st)"
  shows "benign (snd (workflow_invoke e st))"
  unfolding workflow_invoke_def
  using assms
  by (intro benign_bind_io benign_nodes) (simp_all add: nodes_keep_callback)

lemma benign_run_body:
  assumes "\<forall>c u. benign (exec_program e c u)" and "benign_callback cb"
  shows "benign (snd (run_body e tp urls cb))"
  unfolding run_body_def
  using assms
  by (intro benign_bind_io benign_notify benign_workflow_invoke)
     (simp_all add: initial_state_def)

text \<open>
  C1, as stated, fails. Both the guards of the nodes and the outermost guard are
  \<^verbatim>\<open>except Exception\<close>. A callback that raises an exception deriving from
  \<^verbatim>\<open>BaseException\<close> only (as the script-control exceptions of the UI do) is not caught:
  the fault reaches the caller and no bundle is returned.
\<close>

theorem C1_counterexample:
  "run_langgraph_workflow demo_env ''AI'' demo_urls (Some stopping_callback) =
     ([Progress msg_start], Raises (PyBaseException ''StopException''))"
  by (simp add: run_langgraph_workflow_def run_body_def notify_def stopping_callback_def)


text \<open>
  C1, amended. If every run of a generated program and every call of the callback
  returns or raises an instance of \<^verbatim>\<open>Exception\<close>, then for every topic and URL list the
  run returns a bundle and raises nothing. If an \<^verbatim>\<open>Exception\<close> escapes the guards of the
  stages (the body of the outermost \<^verbatim>\<open>try\<close> raises it), the bundle returned has the
  error text in the script and social fields, an empty summary, count 0 and no processed
  URL.
\<close>

theorem C1_bundle_for_every_exception:
  assumes "\<forall>c u. benign (exec_program e c u)" and "benign_callback cb"
  shows "(\<exists>b. snd (run_langgraph_workflow e tp urls cb) = Returns b) \<and>
    (\<forall>x. snd (run_langgraph_workflow e tp urls cb) \<noteq> Raises x) \<and>
    (\<forall>msg. snd (run_body e tp urls cb) = Raises (PyException msg) \<longrightarrow>
       snd (run_langgraph_workflow e tp urls cb) = Returns (failure_bundle msg) \<and>
       b_video_script (failure_bundle msg) = workflow_error_prefix @ msg \<and>
       b_social_media (failure_bundle msg) = workflow_error_prefix @ msg \<and>
       b_summary (failure_bundle msg) = [] \<and>
       scraped_data_count (failure_bundle msg) = 0 \<and>
       processed_urls (failure_bundle msg) = [])"
proof -
  have r: "\<exists>b. snd (run_langgraph_workflow e tp urls cb) = Returns b"
    unfolding run_langgraph_workflow_def
    by (rule try_except_Returns [OF benign_run_body [OF assms]]) simp
  then have "\<forall>x. snd (run_langgraph_workflow e tp urls cb) \<noteq> Raises x"
    by auto
  with r show ?thesis
    by (simp add: run_langgraph_workflow_def snd_try_except failure_bundle_def)
qed

theorem C1_witness:
  "snd (run_langgraph_workflow demo_env ''AI'' demo_urls (Some failing_callback)) =
     Returns (failure_bundle ''widget is gone'') \<and>
   processed_urls (failure_bundle ''widget is gone'') = [] \<and>
   scraped_data_count (failure_bundle ''widget is gone'') = 0 \<and>
   b_summary (failure_bundle ''widget is gone'') = []"
proof -
  have h1: "\<forall>c u. benign (exec_program demo_env c u)"
    by (simp add: demo_env_def)
  have h2: "benign_callback (Some failing_callback)"
    by (simp add: benign_callback_def failing_callback_def)
  have h3: "snd (run_body demo_env ''AI'' demo_urls (Some failing_callback)) =
      Raises (PyException ''widget is gone'')"
    by (simp add: run_body_def notify_def failing_callback_def)
  from C1_bundle_for_every_exception [OF h1 h2, of "''AI''" demo_urls] h3
  show ?thesis by blast
qed


section \<open>Index alignment of the fan-out stages\<close>










end
